theory Spec2Isabelle
  imports Main "HOL-Library.Word"
begin

unbundle bit_operations_syntax

section \<open>Machine types\<close>

text \<open>
  The formatter mymkfs.c computes with \<open>uint64_t\<close> (geometry, offsets), \<open>uint8_t\<close>
  (bitmap bytes), 32-bit ids and modes, and \<open>int\<close> (return codes, the loop counter).
  Unsigned values are words, so that \<open>+\<close>, \<open>-\<close>, \<open>*\<close> wrap as in C; \<open>ssize_t\<close> and
  \<open>off_t\<close> results are kept as their 64-bit patterns, because the source only ever
  compares them for equality with an unsigned count or with \<open>-1\<close>.
\<close>

type_synonym u8 = "8 word"
type_synonym u32 = "32 word"
type_synonym u64 = "64 word"

section \<open>The constants of constants.h\<close>

text \<open>
  Modelled from the spec: the header constants.h is not among the sources. The block
  size is the spec's fixed 4096 bytes; the source agrees (the layout comment at the top
  of mymkfs.c, and the superblock structure, ten 8-byte fields and 4016 bytes of
  padding, which \<open>write_sb\<close> requires to be exactly one block).
\<close>

definition HUST_BLOCKSIZE :: u64 where
  "HUST_BLOCKSIZE = 4096"

text \<open>
  Modelled from the spec: the reserved leading blocks are the dummy block and the
  superblock's block, two in all (the source's comment on \<open>data_block_number\<close> computes
  \<open>2 + 1 + 1 + 6\<close>).
\<close>

definition RESERVE_BLOCKS :: u64 where
  "RESERVE_BLOCKS = 2"

text \<open>
  Modelled from the spec: \<open>sizeof(struct HUST_inode)\<close> is 264 bytes (the spec's inode
  record size, and the source's comment on \<open>HUST_INODE_SIZE\<close>). On the LP64 layout this is
  8 (mode, padded) + 8 + 8 + 8 * \<open>HUST_N_BLOCKS\<close> + 8 + 16 (three 32-bit fields, padded)
  + 24 + 112 with \<open>HUST_N_BLOCKS = 10\<close>.
\<close>

definition HUST_INODE_SIZE :: u64 where
  "HUST_INODE_SIZE = 264"

text \<open>
  The remaining constants of the header (the magic number, the root inode number and the
  length of a file-name field) are not fixed by the sources or the spec: they are
  parameters of the model.
\<close>

record constants =
  MAGIC_NUM :: u64
  HUST_ROOT_INODE_NUM :: u64
  HUST_FILENAME_MAX_LEN :: nat

text \<open>The file-type bits of \<open>mode_t\<close> (from the system's stat.h): octal 040000 and 0100000.\<close>

definition S_IFDIR :: u32 where
  "S_IFDIR = 0x4000"

definition S_IFREG :: u32 where
  "S_IFREG = 0x8000"

text \<open>\<open>INT_MAX\<close> of the 32-bit \<open>int\<close> that counts the bitmap loop.\<close>

definition INT_MAX :: int where
  "INT_MAX = 2147483647"

section \<open>Data structures\<close>

text \<open>
  Fixed-size C arrays are functions from the index; their length is a constant of the
  program. Fields the code never assigns keep whatever the storage held before.
\<close>

record HUST_fs_super_block =
  version :: u64
  magic :: u64
  block_size :: u64
  inodes_count :: u64
  free_blocks :: u64
  blocks_count :: u64
  bmap_block :: u64
  imap_block :: u64
  inode_table_block :: u64
  data_block_number :: u64
  padding :: "nat \<Rightarrow> u8"

definition sizeof_super_block :: nat where
  "sizeof_super_block = 10 * 8 + 4016"

text \<open>
  The union of \<open>file_size\<close> and \<open>dir_children_count\<close> is one 64-bit slot, here the field
  \<open>file_size\<close>; \<open>dir_children_count\<close> reads the same slot.
\<close>

record HUST_inode =
  mode :: u32
  inode_no :: u64
  blocks :: u64
  block :: "nat \<Rightarrow> u64"
  file_size :: u64
  i_uid :: u32
  i_gid :: u32
  i_nlink :: u32
  i_atime :: u64
  i_mtime :: u64
  i_ctime :: u64
  i_padding :: "nat \<Rightarrow> u8"

abbreviation dir_children_count :: "HUST_inode \<Rightarrow> u64" where
  "dir_children_count \<equiv> file_size"

record HUST_dir_record =
  filename :: "nat \<Rightarrow> char"
  d_inode_no :: u64

text \<open>
  \<open>sizeof(struct HUST_dir_record)\<close>: the name field, padded to the 8-byte alignment of
  the inode number that follows it.
\<close>

definition sizeof_dir_record :: "constants \<Rightarrow> nat" where
  "sizeof_dir_record k = ((HUST_FILENAME_MAX_LEN k + 7) div 8) * 8 + 8"

text \<open>The program's file-scope variables. A pointer is \<open>None\<close> (NULL) or a heap buffer.\<close>

record globals =
  bmap :: "u8 list option"
  imap :: "u8 list option"
  disk_size :: u64
  bmap_size :: u64
  imap_size :: u64
  inode_table_size :: u64
  super_block :: HUST_fs_super_block

text \<open>Static storage starts zeroed.\<close>

definition globals_init :: globals where
  "globals_init =
     \<lparr>bmap = None, imap = None, disk_size = 0, bmap_size = 0, imap_size = 0,
      inode_table_size = 0,
      super_block =
        \<lparr>version = 0, magic = 0, block_size = 0, inodes_count = 0, free_blocks = 0,
         blocks_count = 0, bmap_block = 0, imap_block = 0, inode_table_block = 0,
         data_block_number = 0, padding = (\<lambda>_. 0)\<rparr>\<rparr>"

section \<open>The operating system\<close>

text \<open>
  What the program reads from its environment: the results of \<open>open\<close> and \<open>stat\<close> per
  path, whether the i-th allocation (of n bytes) succeeds and what the fresh memory
  holds, the outcome of the n-th \<open>write\<close> call, whether the positioning \<open>lseek\<close> succeeds, the process's
  ids, the clock at the n-th call of \<open>time\<close>, and the contents of the uninitialised
  automatic variables of \<open>write_itable\<close>.
\<close>

datatype wres = WFull | WShort nat | WErr

record env =
  open_result :: "string \<Rightarrow> int"
  st_size :: "string \<Rightarrow> u64 option"
  malloc_ok :: "nat \<Rightarrow> nat \<Rightarrow> bool"
  heap_junk :: "nat \<Rightarrow> nat \<Rightarrow> u8"
  write_result :: "nat \<Rightarrow> wres"
  lseek_ok :: bool
  uid :: u32
  gid :: u32
  time_result :: "nat \<Rightarrow> u64"
  auto_root_dir_inode :: HUST_inode
  auto_onefile_inode :: HUST_inode
  auto_root_dir_c :: HUST_dir_record
  auto_root_dir_p :: HUST_dir_record
  auto_file_record :: HUST_dir_record

text \<open>What a \<open>write\<close> call hands to the kernel: a byte buffer or one of the structures.\<close>

datatype payload =
  is_Raw: Raw (bytes_of: "u8 list")
  | is_SB: SB (sb_of: HUST_fs_super_block)
  | is_INODE: INODE (inode_of: HUST_inode)
  | is_DIRREC: DIRREC (record_of: HUST_dir_record)

text \<open>
  One entry per \<open>write\<close> call issued: the descriptor, the file offset at the call, the
  buffer, the byte count asked for and the call's result.
\<close>

record wcall =
  w_fd :: int
  w_at :: nat
  w_buf :: payload
  w_count :: nat
  w_ret :: u64

record sys =
  pos :: nat
  trace :: "wcall list"

definition sys_init :: sys where
  "sys_init = \<lparr>pos = 0, trace = []\<rparr>"

text \<open>
  \<open>write(fd, buf, n)\<close>: a full write transfers n bytes, a short one fewer, an error
  none and returns -1. The offset advances by the bytes transferred.
\<close>

definition transferred :: "wres \<Rightarrow> nat \<Rightarrow> nat" where
  "transferred r n = (case r of WFull \<Rightarrow> n | WShort m \<Rightarrow> min m n | WErr \<Rightarrow> 0)"

definition sys_write :: "env \<Rightarrow> sys \<Rightarrow> int \<Rightarrow> payload \<Rightarrow> nat \<Rightarrow> u64 \<times> sys" where
  "sys_write e s fd b n =
     (let r = write_result e (length (trace s));
          rv = (case r of WErr \<Rightarrow> - 1 | _ \<Rightarrow> of_nat (transferred r n))
      in (rv, \<lparr>pos = pos s + transferred r n,
               trace = trace s @ [\<lparr>w_fd = fd, w_at = pos s, w_buf = b, w_count = n, w_ret = rv\<rparr>]\<rparr>))"

text \<open>\<open>lseek(fd, off, SEEK_SET)\<close>: the new offset, or -1 with the offset unchanged.\<close>

definition sys_lseek :: "env \<Rightarrow> sys \<Rightarrow> u64 \<Rightarrow> u64 \<times> sys" where
  "sys_lseek e s off = (if lseek_ok e then (off, s\<lparr>pos := unat off\<rparr>) else (- 1, s))"

text \<open>
  The i-th call \<open>malloc(n)\<close> returns NULL or n bytes of unspecified content;
  \<open>memset(p, c, n)\<close> fills the first n bytes.
\<close>

definition malloc :: "env \<Rightarrow> nat \<Rightarrow> nat \<Rightarrow> u8 list option" where
  "malloc e i n = (if malloc_ok e i n then Some (map (heap_junk e i) [0..<n]) else None)"

definition memset :: "u8 list \<Rightarrow> u8 \<Rightarrow> nat \<Rightarrow> u8 list" where
  "memset p c n = replicate n c @ drop n p"

section \<open>get_file_size, set_bmap, set_imap\<close>

definition get_file_size :: "env \<Rightarrow> string \<Rightarrow> u64" where
  "get_file_size e path = (case st_size e path of None \<Rightarrow> - 1 | Some sz \<Rightarrow> sz)"

text \<open>
  A result of \<open>None\<close> is undefined behaviour of the C program: a store outside the
  buffer, a store through NULL, or signed overflow. \<open>Some (r, g)\<close> is a return with the
  C return value r and the globals g.
\<close>

definition set_bmap :: "globals \<Rightarrow> u64 \<Rightarrow> int \<Rightarrow> (int \<times> globals) option" where
  "set_bmap g idx v =
     (case bmap g of
        None \<Rightarrow> Some (- 1, g)
      | Some b \<Rightarrow>
          let array_idx = idx div 8;
              off = idx mod 8
          in if array_idx > bmap_size g * HUST_BLOCKSIZE then Some (- 1, g)
             else if unat array_idx < length b then
               (if v \<noteq> 0
                then Some (0, g\<lparr>bmap := Some (b[unat array_idx :=
                                   b ! unat array_idx OR push_bit (unat off) 1])\<rparr>)
                else Some (0, g\<lparr>bmap := Some (b[unat array_idx :=
                                   b ! unat array_idx AND NOT (push_bit (unat off) 1)])\<rparr>))
             else None)"

definition set_imap :: "globals \<Rightarrow> globals option" where
  "set_imap g =
     (case imap g of
        None \<Rightarrow> None
      | Some m \<Rightarrow> if 0 < length m then Some (g\<lparr>imap := Some (m[0 := m ! 0 OR 3])\<rparr>) else None)"

section \<open>init_disk\<close>

text \<open>
  Lines 136 to 191 of \<open>init_disk\<close>: the superblock's geometry and the two zeroed bitmap
  buffers, from \<open>disk_size\<close>. All arithmetic is \<open>uint64_t\<close>; \<open>8 * HUST_BLOCKSIZE\<close> is
  32768 in \<open>int\<close> and is converted unchanged. \<open>memset\<close> through a NULL result of
  \<open>malloc\<close> is undefined behaviour.
\<close>

definition init_disk_layout :: "constants \<Rightarrow> env \<Rightarrow> globals \<Rightarrow> globals option" where
  "init_disk_layout k e g =
     (let sb1 = (super_block g)\<lparr>version := 1, magic := MAGIC_NUM k,
                  block_size := HUST_BLOCKSIZE,
                  blocks_count := disk_size g div HUST_BLOCKSIZE\<rparr>;
          sb2 = sb1\<lparr>inodes_count := blocks_count sb1, free_blocks := 0\<rparr>;
          bsz0 = blocks_count sb2 div (8 * HUST_BLOCKSIZE);
          sb3 = sb2\<lparr>bmap_block := RESERVE_BLOCKS\<rparr>;
          bsz = (if blocks_count sb3 mod (8 * HUST_BLOCKSIZE) \<noteq> 0 then bsz0 + 1 else bsz0)
      in case malloc e 0 (unat (bsz * HUST_BLOCKSIZE)) of
           None \<Rightarrow> None
         | Some p \<Rightarrow>
             let bm = memset p 0 (unat (bsz * HUST_BLOCKSIZE));
                 isz0 = inodes_count sb3 div (8 * HUST_BLOCKSIZE);
                 sb4 = sb3\<lparr>imap_block := bmap_block sb3 + bsz\<rparr>;
                 isz = (if inodes_count sb4 mod (8 * HUST_BLOCKSIZE) \<noteq> 0
                        then isz0 + 1 else isz0)
             in case malloc e 1 (unat (isz * HUST_BLOCKSIZE)) of
                  None \<Rightarrow> None
                | Some q \<Rightarrow>
                    let im = memset q 0 (unat (isz * HUST_BLOCKSIZE));
                        tsz = inodes_count sb4 div (HUST_BLOCKSIZE div HUST_INODE_SIZE);
                        sb5 = sb4\<lparr>inode_table_block := imap_block sb4 + isz\<rparr>;
                        sb6 = sb5\<lparr>data_block_number := RESERVE_BLOCKS + bsz + isz + tsz\<rparr>;
                        sb7 = sb6\<lparr>free_blocks :=
                                blocks_count sb6 - data_block_number sb6 - 1\<rparr>
                    in Some (g\<lparr>bmap := Some bm, imap := Some im, bmap_size := bsz,
                               imap_size := isz, inode_table_size := tsz,
                               super_block := sb7\<rparr>))"

text \<open>
  The loop of lines 194 to 200, entered at \<open>idx\<close>. The comparison converts the \<open>int\<close>
  counter to \<open>uint64_t\<close>, as does the call of \<open>set_bmap\<close>; incrementing the counter at
  \<open>INT_MAX\<close> is signed overflow. A failing \<open>set_bmap\<close> makes \<open>init_disk\<close> return -1.
\<close>

function init_disk_loop :: "globals \<Rightarrow> int \<Rightarrow> (int \<times> globals) option" where
  "init_disk_loop g idx =
     (if (word_of_int idx :: u64) < data_block_number (super_block g) + 1 then
        (case set_bmap g (word_of_int idx) 1 of
           None \<Rightarrow> None
         | Some (r, g') \<Rightarrow>
             if r \<noteq> 0 then Some (- 1, g')
             else if INT_MAX \<le> idx then None
             else init_disk_loop g' (idx + 1))
      else Some (0, g))"
  by pat_completeness auto
termination
  by (relation "measure (\<lambda>(g, idx). nat (INT_MAX - idx))") auto

declare init_disk_loop.simps [simp del]

definition init_disk :: "constants \<Rightarrow> env \<Rightarrow> globals \<Rightarrow> int \<Rightarrow> string \<Rightarrow> (int \<times> globals) option" where
  "init_disk k e g fd path =
     (let g0 = g\<lparr>disk_size := get_file_size e path\<rparr>
      in if disk_size g0 = - 1 then Some (- 1, g0)
         else case init_disk_layout k e g0 of
                None \<Rightarrow> None
              | Some g1 \<Rightarrow>
                  (case init_disk_loop g1 0 of
                     None \<Rightarrow> None
                   | Some (r, g2) \<Rightarrow>
                       if r \<noteq> 0 then Some (- 1, g2)
                       else (case set_imap g2 of
                               None \<Rightarrow> None
                             | Some g3 \<Rightarrow> Some (0, g3))))"

section \<open>The writers\<close>

definition write_dummy :: "env \<Rightarrow> sys \<Rightarrow> int \<Rightarrow> int \<times> sys" where
  "write_dummy e s fd =
     (let dummy = replicate (unat HUST_BLOCKSIZE) (0 :: u8);
          (res, s') = sys_write e s fd (Raw dummy) (unat HUST_BLOCKSIZE)
      in if res \<noteq> HUST_BLOCKSIZE then (- 1, s') else (0, s'))"

definition write_sb :: "env \<Rightarrow> globals \<Rightarrow> sys \<Rightarrow> int \<Rightarrow> int \<times> sys" where
  "write_sb e g s fd =
     (let (ret, s') = sys_write e s fd (SB (super_block g)) sizeof_super_block
      in if ret \<noteq> HUST_BLOCKSIZE then (- 1, s') else (0, s'))"

text \<open>
  The bitmap writers pass the buffer the pointer refers to (no bytes for NULL) and the
  count \<open>bmap_size * HUST_BLOCKSIZE\<close>, which after \<open>init_disk_layout\<close> is the buffer's
  length.
\<close>

definition buffer :: "u8 list option \<Rightarrow> u8 list" where
  "buffer p = (case p of None \<Rightarrow> [] | Some b \<Rightarrow> b)"

definition write_bmap :: "env \<Rightarrow> globals \<Rightarrow> sys \<Rightarrow> int \<Rightarrow> int \<times> sys" where
  "write_bmap e g s fd =
     (let (ret, s') = sys_write e s fd (Raw (buffer (bmap g)))
                        (unat (bmap_size g * HUST_BLOCKSIZE))
      in if ret \<noteq> bmap_size g * HUST_BLOCKSIZE then (- 1, s') else (0, s'))"

definition write_imap :: "env \<Rightarrow> globals \<Rightarrow> sys \<Rightarrow> int \<Rightarrow> int \<times> sys" where
  "write_imap e g s fd =
     (let (res, s') = sys_write e s fd (Raw (buffer (imap g)))
                        (unat (imap_size g * HUST_BLOCKSIZE))
      in if res \<noteq> imap_size g * HUST_BLOCKSIZE then (- 1, s') else (0, s'))"

text \<open>
  C strings end with a NUL byte. \<open>memcpy\<close> into a name field of \<open>cap\<close> bytes overwrites
  the first n bytes; copying more than the field holds is undefined behaviour.
\<close>

definition c_string :: "string \<Rightarrow> string" where
  "c_string s = s @ [CHR 0x00]"

definition strlen :: "string \<Rightarrow> nat" where
  "strlen s = length (takeWhile (\<lambda>c. c \<noteq> CHR 0x00) s)"

definition memcpy :: "nat \<Rightarrow> (nat \<Rightarrow> char) \<Rightarrow> string \<Rightarrow> nat \<Rightarrow> (nat \<Rightarrow> char) option" where
  "memcpy cap dst src n =
     (if n \<le> cap then Some (\<lambda>i. if i < n then src ! i else dst i) else None)"

text \<open>
  The two inode records \<open>write_itable\<close> builds (its lines 273 to 282 and 294 to 303).
  The automatic structures start with what the stack held (the environment's \<open>auto_\<close>
  fields); the code assigns only the fields listed, so \<open>block[1]\<close> onwards, the padding
  and so on keep the stack's contents. The root inode is stamped with the program's first
  call of \<open>time\<close>, the file inode with its second.
\<close>

definition root_dir_inode :: "constants \<Rightarrow> env \<Rightarrow> globals \<Rightarrow> HUST_inode" where
  "root_dir_inode k e g =
     (let t = time_result e 0
      in (auto_root_dir_inode e)
           \<lparr>mode := S_IFDIR, inode_no := HUST_ROOT_INODE_NUM k, blocks := 1,
            block := (block (auto_root_dir_inode e))(0 := data_block_number (super_block g)),
            file_size := 3, i_gid := gid e, i_uid := uid e, i_nlink := 2,
            i_ctime := t, i_mtime := t, i_atime := t\<rparr>)"

definition onefile_inode :: "env \<Rightarrow> HUST_inode" where
  "onefile_inode e =
     (let t = time_result e 1
      in (auto_onefile_inode e)
           \<lparr>mode := S_IFREG, inode_no := 1, blocks := 0,
            block := (block (auto_onefile_inode e))(0 := 0),
            file_size := 0, i_gid := gid e, i_uid := uid e, i_nlink := 1,
            i_ctime := t, i_mtime := t, i_atime := t\<rparr>)"

text \<open>
  \<open>write_itable\<close>: the two inode records, each write checked; then the three directory
  records are built, the offset is set to \<open>data_block_number * HUST_BLOCKSIZE\<close> and the
  records are written. Of the three directory writes only the last result is tested.
\<close>

definition write_itable :: "constants \<Rightarrow> env \<Rightarrow> globals \<Rightarrow> sys \<Rightarrow> int \<Rightarrow> (int \<times> sys) option" where
  "write_itable k e g s fd =
     (let (ret1, s1) = sys_write e s fd (INODE (root_dir_inode k e g)) (unat HUST_INODE_SIZE)
      in if ret1 \<noteq> HUST_INODE_SIZE then Some (- 1, s1)
         else
           let (ret2, s2) = sys_write e s1 fd (INODE (onefile_inode e)) (unat HUST_INODE_SIZE)
           in if ret2 \<noteq> HUST_INODE_SIZE then Some (- 1, s2)
              else
                let cur_dir = c_string ''.'';
                    parent_dir = c_string ''..'';
                    onefile = c_string ''file'';
                    cap = HUST_FILENAME_MAX_LEN k
                in case memcpy cap (filename (auto_root_dir_c e)) cur_dir (strlen cur_dir + 1) of
                     None \<Rightarrow> None
                   | Some name_c \<Rightarrow>
                 (case memcpy cap (filename (auto_root_dir_p e)) parent_dir
                         (strlen parent_dir + 1) of
                     None \<Rightarrow> None
                   | Some name_p \<Rightarrow>
                 (case memcpy cap (filename (auto_file_record e)) onefile
                         (strlen onefile + 1) of
                     None \<Rightarrow> None
                   | Some name_f \<Rightarrow>
                       let root_dir_c = (auto_root_dir_c e)
                             \<lparr>filename := name_c, d_inode_no := HUST_ROOT_INODE_NUM k\<rparr>;
                           root_dir_p = (auto_root_dir_p e)
                             \<lparr>filename := name_p, d_inode_no := HUST_ROOT_INODE_NUM k\<rparr>;
                           file_record = (auto_file_record e)
                             \<lparr>filename := name_f, d_inode_no := 1\<rparr>;
                           (r, s3) = sys_lseek e s2
                                       (data_block_number (super_block g) * HUST_BLOCKSIZE)
                       in if r = - 1 then Some (- 1, s3)
                          else
                            let n = sizeof_dir_record k;
                                (ret3, s4) = sys_write e s3 fd (DIRREC root_dir_c) n;
                                (ret4, s5) = sys_write e s4 fd (DIRREC root_dir_p) n;
                                (ret5, s6) = sys_write e s5 fd (DIRREC file_record) n
                            in if ret5 \<noteq> of_nat n then Some (- 1, s6) else Some (0, s6))))"

section \<open>main\<close>

text \<open>
  \<open>main\<close> returns -1 on a usage or open error. Otherwise it sets \<open>ret = 1\<close>, calls the
  six stages in order, discards every stage's return value and returns \<open>ret\<close>. The
  result is the exit value and the state of the device descriptor; \<open>None\<close> is undefined
  behaviour in a stage.
\<close>

definition main :: "constants \<Rightarrow> env \<Rightarrow> string list \<Rightarrow> (int \<times> sys) option" where
  "main k e argv =
     (if int (length argv) \<noteq> 2 then Some (- 1, sys_init)
      else
        let fd = open_result e (argv ! 1)
        in if fd = - 1 then Some (- 1, sys_init)
           else
             let ret = 1
             in case init_disk k e globals_init fd (argv ! 1) of
                  None \<Rightarrow> None
                | Some (r1, g) \<Rightarrow>
                    let (r2, s1) = write_dummy e sys_init fd;
                        (r3, s2) = write_sb e g s1 fd;
                        (r4, s3) = write_bmap e g s2 fd;
                        (r5, s4) = write_imap e g s3 fd
                    in case write_itable k e g s4 fd of
                         None \<Rightarrow> None
                       | Some (r6, s5) \<Rightarrow> Some (ret, s5))"

section \<open>Reading the results\<close>

text \<open>
  Bit i of a bitmap buffer is bit \<open>i mod 8\<close> of byte \<open>i div 8\<close>; \<open>bits_list\<close> lists the
  indices of the set bits in increasing order.
\<close>

definition bit_at :: "u8 list \<Rightarrow> nat \<Rightarrow> bool" where
  "bit_at b i = (i div 8 < length b \<and> bit (b ! (i div 8)) (i mod 8))"

definition bits_list :: "u8 list \<Rightarrow> nat list" where
  "bits_list b = filter (bit_at b) [0..<8 * length b]"

text \<open>
  Reading a trace: the inode records written, in order; the directory records written
  with their offsets, in order; the first byte past a write; and the name a directory
  record holds (the bytes of its name field before the first NUL).
\<close>

definition inodes_written :: "sys \<Rightarrow> HUST_inode list" where
  "inodes_written s = map (inode_of \<circ> w_buf) (filter (is_INODE \<circ> w_buf) (trace s))"


definition w_end :: "wcall \<Rightarrow> nat" where
  "w_end c = w_at c + w_count c"


text \<open>
  The writes of a run in which every call succeeds, for the globals g that \<open>init_disk\<close>
  left and the descriptor fd, with offsets and counts in bytes: the five writes of
  \<open>write_itable\<close> entered at file offset p, and the nine writes of the whole run.
\<close>

definition itable_trace :: "constants \<Rightarrow> env \<Rightarrow> globals \<Rightarrow> int \<Rightarrow> nat \<Rightarrow> wcall list" where
  "itable_trace k e g fd p =
     (let d = unat (data_block_number (super_block g)) * 4096;
          n = sizeof_dir_record k
      in [\<lparr>w_fd = fd, w_at = p, w_buf = INODE (root_dir_inode k e g),
            w_count = 264, w_ret = 264\<rparr>,
          \<lparr>w_fd = fd, w_at = p + 264, w_buf = INODE (onefile_inode e),
            w_count = 264, w_ret = 264\<rparr>,
          \<lparr>w_fd = fd, w_at = d,
            w_buf = DIRREC ((auto_root_dir_c e)
              \<lparr>filename := (\<lambda>i. if i < 2 then c_string ''.'' ! i
                                else filename (auto_root_dir_c e) i),
               d_inode_no := HUST_ROOT_INODE_NUM k\<rparr>),
            w_count = n, w_ret = of_nat n\<rparr>,
          \<lparr>w_fd = fd, w_at = d + n,
            w_buf = DIRREC ((auto_root_dir_p e)
              \<lparr>filename := (\<lambda>i. if i < 3 then c_string ''..'' ! i
                                else filename (auto_root_dir_p e) i),
               d_inode_no := HUST_ROOT_INODE_NUM k\<rparr>),
            w_count = n, w_ret = of_nat n\<rparr>,
          \<lparr>w_fd = fd, w_at = d + 2 * n,
            w_buf = DIRREC ((auto_file_record e)
              \<lparr>filename := (\<lambda>i. if i < 5 then c_string ''file'' ! i
                                else filename (auto_file_record e) i),
               d_inode_no := 1\<rparr>),
            w_count = n, w_ret = of_nat n\<rparr>])"

definition full_trace :: "constants \<Rightarrow> env \<Rightarrow> globals \<Rightarrow> int \<Rightarrow> wcall list" where
  "full_trace k e g fd =
     (let nb = unat (bmap_size g) * 4096;
          ni = unat (imap_size g) * 4096
      in [\<lparr>w_fd = fd, w_at = 0, w_buf = Raw (replicate 4096 0), w_count = 4096,
            w_ret = 4096\<rparr>,
          \<lparr>w_fd = fd, w_at = 4096, w_buf = SB (super_block g), w_count = 4096,
            w_ret = 4096\<rparr>,
          \<lparr>w_fd = fd, w_at = 8192, w_buf = Raw (buffer (bmap g)), w_count = nb,
            w_ret = of_nat nb\<rparr>,
          \<lparr>w_fd = fd, w_at = 8192 + nb, w_buf = Raw (buffer (imap g)), w_count = ni,
            w_ret = of_nat ni\<rparr>]
         @ itable_trace k e g fd (8192 + nb + ni))"

text \<open>
  The layout \<open>init_disk_layout\<close> computes, written with natural-number arithmetic:
  \<open>bc\<close> blocks, \<open>bm\<close> blocks per bitmap (the ceiling of \<open>bc / 32768\<close>), \<open>bc div 15\<close>
  blocks of inode table. \<open>bitmap_bytes\<close> is the size of each bitmap buffer.
\<close>

definition geometry :: "constants \<Rightarrow> globals \<Rightarrow> globals" where
  "geometry k g =
     (let bc = unat (disk_size g) div 4096;
          bm = (bc + 32767) div 32768
      in g\<lparr>bmap := Some (replicate (bm * 4096) 0), imap := Some (replicate (bm * 4096) 0),
           bmap_size := of_nat bm, imap_size := of_nat bm,
           inode_table_size := of_nat (bc div 15),
           super_block := (super_block g)\<lparr>version := 1, magic := MAGIC_NUM k,
             block_size := 4096, blocks_count := of_nat bc, inodes_count := of_nat bc,
             free_blocks := of_nat bc - of_nat (2 + 2 * bm + bc div 15) - 1,
             bmap_block := 2, imap_block := of_nat (2 + bm),
             inode_table_block := of_nat (2 + 2 * bm),
             data_block_number := of_nat (2 + 2 * bm + bc div 15)\<rparr>\<rparr>)"

definition bitmap_bytes :: "globals \<Rightarrow> nat" where
  "bitmap_bytes g = (unat (disk_size g) div 4096 + 32767) div 32768 * 4096"

section \<open>Sample inputs\<close>

text \<open>
  One choice of the header's free constants, and an environment in which the device
  has the given size and every system call succeeds; the automatic variables start
  with arbitrary contents.
\<close>

definition sample_constants :: constants where
  "sample_constants =
     \<lparr>MAGIC_NUM = 0x13090D15, HUST_ROOT_INODE_NUM = 0, HUST_FILENAME_MAX_LEN = 256\<rparr>"

definition sample_inode :: HUST_inode where
  "sample_inode =
     \<lparr>mode = 0xDEAD, inode_no = 77, blocks = 5, block = (\<lambda>_. 9), file_size = 11,
      i_uid = 1, i_gid = 2, i_nlink = 3, i_atime = 4, i_mtime = 5, i_ctime = 6,
      i_padding = (\<lambda>_. 0xEE)\<rparr>"

definition sample_record :: HUST_dir_record where
  "sample_record = \<lparr>filename = (\<lambda>_. CHR ''x''), d_inode_no = 99\<rparr>"

definition sample_env :: "u64 \<Rightarrow> env" where
  "sample_env sz =
     \<lparr>open_result = (\<lambda>_. 3), st_size = (\<lambda>_. Some sz), malloc_ok = (\<lambda>_ _. True),
      heap_junk = (\<lambda>_ _. 0xAA), write_result = (\<lambda>_. WFull), lseek_ok = True,
      uid = 1000, gid = 100, time_result = (\<lambda>n. 1700000000 + of_nat n),
      auto_root_dir_inode = sample_inode, auto_onefile_inode = sample_inode,
      auto_root_dir_c = sample_record, auto_root_dir_p = sample_record,
      auto_file_record = sample_record\<rparr>"

text \<open>The globals \<open>init_disk\<close> leaves for the 409600-byte sample device.\<close>

definition sample_formatted :: globals where
  "sample_formatted =
     \<lparr>bmap = Some ((replicate 4096 0)[0 := 255, 1 := 7]),
      imap = Some ((replicate 4096 0)[0 := 3]),
      disk_size = 409600, bmap_size = 1, imap_size = 1, inode_table_size = 6,
      super_block =
        \<lparr>version = 1, magic = MAGIC_NUM sample_constants, block_size = 4096,
         inodes_count = 100, free_blocks = 89, blocks_count = 100, bmap_block = 2,
         imap_block = 3, inode_table_block = 4, data_block_number = 10,
         padding = (\<lambda>_. 0)\<rparr>\<rparr>"

section \<open>Arithmetic of the layout\<close>

lemma unat_of_nat64: "n < 2 ^ 64 \<Longrightarrow> unat (of_nat n :: u64) = n"
  by (simp add: unat_of_nat)

lemma of_nat_div64:
  "n < 2 ^ 64 \<Longrightarrow> m < 2 ^ 64 \<Longrightarrow> (of_nat n :: u64) div of_nat m = of_nat (n div m)"
  by (metis word_arith_nat_div unat_of_nat64)

lemma of_nat_mod0_64:
  assumes "n < 2 ^ 64" "m < 2 ^ 64"
  shows "((of_nat n :: u64) mod of_nat m = 0) = (n mod m = 0)"
proof -
  have "((of_nat n :: u64) mod of_nat m = 0) = (unat ((of_nat n :: u64) mod of_nat m) = 0)"
    by (simp only: unat_eq_zero)
  also have "\<dots> = (unat (of_nat n :: u64) mod unat (of_nat m :: u64) = 0)"
    by (simp only: unat_mod)
  also have "\<dots> = (n mod m = 0)"
    using assms by (simp only: unat_of_nat64)
  finally show ?thesis .
qed

text \<open>The C idiom "divide, then add one if there is a remainder" is the ceiling.\<close>

lemma ceil_div_gen:
  fixes n d :: nat
  assumes "0 < d"
  shows "(if n mod d \<noteq> 0 then n div d + 1 else n div d) = (n + (d - 1)) div d"
proof -
  define q r where "q = n div d" and "r = n mod d"
  have n: "q * d + r = n"
    unfolding q_def r_def by (rule div_mult_mod_eq)
  have r: "r < d"
    unfolding r_def using assms by (rule mod_less_divisor)
  have "(if r \<noteq> 0 then q + 1 else q) = (q * d + r + (d - 1)) div d"
  proof (cases "r = 0")
    case True
    have "(d - 1) div d = 0" using assms by (intro div_less) simp
    moreover have "(q * d + (d - 1)) div d = q + (d - 1) div d"
      using assms by (intro div_mult_self3) simp
    ultimately have "(q * d + (d - 1)) div d = q" by simp
    with True show ?thesis by simp
  next
    case False
    then have "q * d + r + (d - 1) = (q + 1) * d + (r - 1)" using assms by simp
    moreover have "((q + 1) * d + (r - 1)) div d = q + 1"
    proof -
      have "(r - 1) div d = 0" using r by (intro div_less) simp
      moreover have "((q + 1) * d + (r - 1)) div d = (q + 1) + (r - 1) div d"
        using assms by (intro div_mult_self3) simp
      ultimately show ?thesis by simp
    qed
    ultimately have "(q * d + r + (d - 1)) div d = q + 1" by (simp only:)
    with False show ?thesis by (simp only: if_True not_False_eq_True)
  qed
  then show ?thesis unfolding n unfolding q_def r_def .
qed

lemma ceil_div_nat:
  "(if 0 < n mod 32768 then n div 32768 + 1 else n div 32768) = (n + 32767) div (32768::nat)"
  using ceil_div_gen [of 32768 n] by simp

lemma layout_word:
  "init_disk_layout k e g =
     (let bcw = disk_size g div 4096;
          bsz = (if bcw mod 32768 \<noteq> 0 then bcw div 32768 + 1 else bcw div 32768);
          n = unat (bsz * 4096)
      in if malloc_ok e 0 n \<and> malloc_ok e 1 n
         then Some (g\<lparr>bmap := Some (replicate n 0), imap := Some (replicate n 0),
                bmap_size := bsz, imap_size := bsz, inode_table_size := bcw div 15,
                super_block := (super_block g)\<lparr>version := 1, magic := MAGIC_NUM k,
                  block_size := 4096, blocks_count := bcw, inodes_count := bcw,
                  free_blocks := bcw - (2 + bsz + bsz + bcw div 15) - 1,
                  bmap_block := 2, imap_block := 2 + bsz,
                  inode_table_block := 2 + bsz + bsz,
                  data_block_number := 2 + bsz + bsz + bcw div 15\<rparr>\<rparr>)
         else None)"
  by (simp add: init_disk_layout_def Let_def HUST_BLOCKSIZE_def RESERVE_BLOCKS_def
        HUST_INODE_SIZE_def malloc_def memset_def)

lemma layout_closed:
  "init_disk_layout k e g =
     (if malloc_ok e 0 (bitmap_bytes g) \<and> malloc_ok e 1 (bitmap_bytes g)
      then Some (geometry k g) else None)"
proof -
  define bc where "bc = unat (disk_size g) div 4096"
  define bm where "bm = (bc + 32767) div 32768"
  have S: "unat (disk_size g) < 2 ^ 64" using unsigned_less [of "disk_size g"] by simp
  have bc: "bc < 2 ^ 52" unfolding bc_def using S by simp
  then have bc64: "bc < 2 ^ 64" by simp
  have A: "disk_size g div 4096 = of_nat bc"
    unfolding bc_def by (subst word_arith_nat_div) simp
  have B: "(of_nat bc :: u64) div 32768 = of_nat (bc div 32768)"
    using of_nat_div64 [OF bc64, of 32768] by simp
  have C: "(of_nat bc :: u64) div 15 = of_nat (bc div 15)"
    using of_nat_div64 [OF bc64, of 15] by simp
  have D: "((of_nat bc :: u64) mod 32768 = 0) = (bc mod 32768 = 0)"
    using of_nat_mod0_64 [OF bc64, of 32768] by simp
  have E: "(if (of_nat bc :: u64) mod 32768 \<noteq> 0 then of_nat bc div 32768 + 1
            else of_nat bc div 32768) = (of_nat bm :: u64)"
    unfolding bm_def ceil_div_nat [symmetric] B D by simp
  have bm: "bm < 2 ^ 38" unfolding bm_def using bc by simp
  have F: "unat (of_nat bm * 4096 :: u64) = bm * 4096"
  proof -
    have "bm * 4096 < 2 ^ 64" using bm by simp
    then have "unat (of_nat (bm * 4096) :: u64) = bm * 4096" by (rule unat_of_nat64)
    then show ?thesis by simp
  qed
  have G: "geometry k g =
      g\<lparr>bmap := Some (replicate (bm * 4096) 0), imap := Some (replicate (bm * 4096) 0),
        bmap_size := of_nat bm, imap_size := of_nat bm,
        inode_table_size := of_nat (bc div 15),
        super_block := (super_block g)\<lparr>version := 1, magic := MAGIC_NUM k,
          block_size := 4096, blocks_count := of_nat bc, inodes_count := of_nat bc,
          free_blocks := of_nat bc - of_nat (2 + 2 * bm + bc div 15) - 1,
          bmap_block := 2, imap_block := of_nat (2 + bm),
          inode_table_block := of_nat (2 + 2 * bm),
          data_block_number := of_nat (2 + 2 * bm + bc div 15)\<rparr>\<rparr>"
    unfolding geometry_def Let_def bc_def bm_def ..
  have H: "bitmap_bytes g = bm * 4096"
    unfolding bitmap_bytes_def bc_def bm_def ..
  show ?thesis
    unfolding layout_word Let_def A E F C G H
    by (simp add: add.commute)
qed

lemma layout_Some: "init_disk_layout k e g = Some g' \<Longrightarrow> g' = geometry k g"
  by (simp add: layout_closed split: if_splits)

lemma geometry_unat:
  fixes g :: globals
  defines "bc \<equiv> unat (disk_size g) div 4096"
  defines "bm \<equiv> (bc + 32767) div 32768"
  shows "unat (blocks_count (super_block (geometry k g))) = bc"
    and "unat (inodes_count (super_block (geometry k g))) = bc"
    and "unat (bmap_size (geometry k g)) = bm"
    and "unat (imap_size (geometry k g)) = bm"
    and "unat (inode_table_size (geometry k g)) = bc div 15"
    and "unat (bmap_block (super_block (geometry k g))) = 2"
    and "unat (imap_block (super_block (geometry k g))) = 2 + bm"
    and "unat (inode_table_block (super_block (geometry k g))) = 2 + 2 * bm"
    and "unat (data_block_number (super_block (geometry k g))) = 2 + 2 * bm + bc div 15"
proof -
  have S: "unat (disk_size g) < 2 ^ 64" using unsigned_less [of "disk_size g"] by simp
  have bc: "bc < 2 ^ 52" unfolding bc_def using S by simp
  have bm: "bm < 2 ^ 38" unfolding bm_def using bc by simp
  have t: "bc div 15 < 2 ^ 52" using bc by simp
  show "unat (blocks_count (super_block (geometry k g))) = bc"
    using bc by (simp add: geometry_def Let_def bc_def [symmetric] unat_of_nat64 del: of_nat_div)
  show "unat (inodes_count (super_block (geometry k g))) = bc"
    using bc by (simp add: geometry_def Let_def bc_def [symmetric] unat_of_nat64)
  show "unat (bmap_size (geometry k g)) = bm"
    using bm by (simp add: geometry_def Let_def bc_def [symmetric] bm_def [symmetric] unat_of_nat64)
  show "unat (imap_size (geometry k g)) = bm"
    using bm by (simp add: geometry_def Let_def bc_def [symmetric] bm_def [symmetric] unat_of_nat64)
  show "unat (inode_table_size (geometry k g)) = bc div 15"
    using t by (simp add: geometry_def Let_def bc_def [symmetric] bm_def [symmetric] unat_of_nat64)
  show "unat (bmap_block (super_block (geometry k g))) = 2"
    by (simp add: geometry_def Let_def)
  have "2 + bm < 2 ^ 64" using bm by simp
  then have "unat (of_nat (2 + bm) :: u64) = 2 + bm" by (rule unat_of_nat64)
  then show "unat (imap_block (super_block (geometry k g))) = 2 + bm"
    by (simp add: geometry_def Let_def bc_def [symmetric] bm_def [symmetric])
  have "2 + 2 * bm < 2 ^ 64" using bm by simp
  then have "unat (of_nat (2 + 2 * bm) :: u64) = 2 + 2 * bm" by (rule unat_of_nat64)
  then show "unat (inode_table_block (super_block (geometry k g))) = 2 + 2 * bm"
    by (simp add: geometry_def Let_def bc_def [symmetric] bm_def [symmetric])
  have "2 + 2 * bm + bc div 15 < 2 ^ 64" using bm t by simp
  then have "unat (of_nat (2 + 2 * bm + bc div 15) :: u64) = 2 + 2 * bm + bc div 15" by (rule unat_of_nat64)
  then show "unat (data_block_number (super_block (geometry k g))) = 2 + 2 * bm + bc div 15"
    by (simp add: geometry_def Let_def bc_def [symmetric] bm_def [symmetric])
qed


lemma geometry_free_blocks:
  "free_blocks (super_block (geometry k g)) =
     blocks_count (super_block (geometry k g)) - data_block_number (super_block (geometry k g)) - 1"
  by (simp add: geometry_def Let_def)

lemma unat_free_blocks:
  fixes a b :: u64
  assumes "unat b < unat a"
  shows "unat (a - b - 1) = unat a - unat b - 1"
proof -
  have "b \<le> a" using assms by (simp add: word_le_nat_alt)
  then have 1: "unat (a - b) = unat a - unat b" by (rule unat_sub)
  then have "unat (1 :: u64) \<le> unat (a - b)" using assms by simp
  then have "(1 :: u64) \<le> a - b" by (simp only: word_le_nat_alt)
  then have "unat (a - b - 1) = unat (a - b) - unat (1 :: u64)" by (rule unat_sub)
  with 1 show ?thesis by simp
qed

section \<open>The 409600-byte device (claim C2)\<close>

lemma init_disk_eval_400k:
  assumes "st_size e path = Some 409600" and "malloc_ok e 0 4096" and "malloc_ok e 1 4096"
  shows "init_disk k e g fd path =
     Some (0, g\<lparr>disk_size := 409600,
                bmap := Some ((replicate 4096 0)[0 := 255, 1 := 7]),
                imap := Some ((replicate 4096 0)[0 := 3]),
                bmap_size := 1, imap_size := 1, inode_table_size := 6,
                super_block := (super_block g)\<lparr>version := 1, magic := MAGIC_NUM k,
                  block_size := 4096, blocks_count := 100, inodes_count := 100,
                  free_blocks := 89, bmap_block := 2, imap_block := 3,
                  inode_table_block := 4, data_block_number := 10\<rparr>\<rparr>)"
  using assms
  by (simp add: init_disk_def get_file_size_def layout_closed bitmap_bytes_def geometry_def
        init_disk_loop.simps set_bmap_def set_imap_def HUST_BLOCKSIZE_def INT_MAX_def)


text \<open>
  C2. On a device of exactly 409600 bytes \<open>init_disk\<close> returns 0 with
  \<open>blocks_count = 100\<close>, \<open>bmap_size = 1\<close>, \<open>imap_size = 1\<close>, \<open>inode_table_size = 6\<close>,
  \<open>data_block_number = 10\<close> and \<open>free_blocks = 89\<close> (and bits 0 to 10 of the block bitmap,
  bits 0 and 1 of the inode bitmap set), whatever the globals held before.
\<close>

theorem init_disk_400k:
  assumes "st_size e path = Some 409600" and "malloc_ok e 0 4096" and "malloc_ok e 1 4096"
  shows "init_disk k e g fd path =
     Some (0, g\<lparr>disk_size := 409600,
                bmap := Some ((replicate 4096 0)[0 := 255, 1 := 7]),
                imap := Some ((replicate 4096 0)[0 := 3]),
                bmap_size := 1, imap_size := 1, inode_table_size := 6,
                super_block := (super_block g)\<lparr>version := 1, magic := MAGIC_NUM k,
                  block_size := 4096, blocks_count := 100, inodes_count := 100,
                  free_blocks := 89, bmap_block := 2, imap_block := 3,
                  inode_table_block := 4, data_block_number := 10\<rparr>\<rparr>)"
  using assms by (rule init_disk_eval_400k)

text \<open>The theorem in the sample environment.\<close>

theorem init_disk_400k_witness:
  "st_size (sample_env 409600) ''image'' = Some 409600 \<and>
   malloc_ok (sample_env 409600) 0 4096 \<and> malloc_ok (sample_env 409600) 1 4096 \<and>
   init_disk sample_constants (sample_env 409600) globals_init 3 ''image'' =
     Some (0, globals_init\<lparr>disk_size := 409600,
                bmap := Some ((replicate 4096 0)[0 := 255, 1 := 7]),
                imap := Some ((replicate 4096 0)[0 := 3]),
                bmap_size := 1, imap_size := 1, inode_table_size := 6,
                super_block := (super_block globals_init)\<lparr>version := 1,
                  magic := MAGIC_NUM sample_constants,
                  block_size := 4096, blocks_count := 100, inodes_count := 100,
                  free_blocks := 89, bmap_block := 2, imap_block := 3,
                  inode_table_block := 4, data_block_number := 10\<rparr>\<rparr>)"
proof -
  have h: "st_size (sample_env 409600) ''image'' = Some 409600"
    "malloc_ok (sample_env 409600) 0 4096" "malloc_ok (sample_env 409600) 1 4096"
    by (simp_all add: sample_env_def)
  show ?thesis
    using h init_disk_400k [OF h, of sample_constants globals_init 3] by simp
qed

lemma init_disk_sample:
  "init_disk sample_constants (sample_env 409600) globals_init 3 ''image'' =
     Some (0, sample_formatted)"
proof -
  have "init_disk sample_constants (sample_env 409600) globals_init 3 ''image'' =
     Some (0, globals_init\<lparr>disk_size := 409600,
                bmap := Some ((replicate 4096 0)[0 := 255, 1 := 7]),
                imap := Some ((replicate 4096 0)[0 := 3]),
                bmap_size := 1, imap_size := 1, inode_table_size := 6,
                super_block := (super_block globals_init)\<lparr>version := 1,
                  magic := MAGIC_NUM sample_constants,
                  block_size := 4096, blocks_count := 100, inodes_count := 100,
                  free_blocks := 89, bmap_block := 2, imap_block := 3,
                  inode_table_block := 4, data_block_number := 10\<rparr>\<rparr>)"
    by (rule init_disk_eval_400k) (simp_all add: sample_env_def)
  then show ?thesis by (simp add: sample_formatted_def globals_init_def)
qed

section \<open>The bitmaps (claim C3)\<close>

lemma bit_pow2: "o' < 8 \<Longrightarrow> bit (2 ^ o' :: u8) j = (j = o')"
  by (auto simp: bit_simps)

lemma bit_at_set:
  assumes "a < length b" and "o' < 8"
  shows "bit_at (b[a := b ! a OR push_bit o' 1]) i = (bit_at b i \<or> i = 8 * a + o')"
proof (cases "i div 8 = a")
  case True
  have "8 * (i div 8) + i mod 8 = i" by (rule mult_div_mod_eq)
  with True have "i = 8 * a + i mod 8" by simp
  then have "(i = 8 * a + o') = (i mod 8 = o')" by (metis add_left_cancel)
  with True assms show ?thesis
    by (simp add: bit_at_def bit_or_iff bit_pow2)
next
  case False
  have "(8 * a + o') div 8 = a" using assms(2) by simp
  with False have "i \<noteq> 8 * a + o'" by auto
  with False show ?thesis by (simp add: bit_at_def)
qed

lemma bit_at_zero: "bit_at (replicate n 0) i = False"
  by (simp add: bit_at_def)

lemma bit_three: "bit (3 :: u8) j = (j < 2)"
proof -
  have e: "(3 :: u8) = mask 2" by (simp add: mask_eq_exp_minus_1)
  have "bit (mask 2 :: u8) j = (j < 2)" by (auto simp: bit_mask_iff)
  then show ?thesis unfolding e .
qed

lemma bit_at_imap:
  assumes "0 < n"
  shows "bit_at ((replicate n 0)[0 := replicate n 0 ! 0 OR 3]) i = (i < 2)"
proof (cases "i div 8 = 0")
  case True
  then have "i < 8" by (simp add: div_eq_0_iff)
  with assms show ?thesis using bit_three [of i] by (simp add: bit_at_def)
next
  case False
  then have "\<not> i < 8" by simp
  with False show ?thesis by (auto simp: bit_at_def)
qed

lemma filter_less_upt: "n \<le> m \<Longrightarrow> filter (\<lambda>i. i < n) [0..<m] = [0..<n]"
proof (induction m)
  case 0
  then show ?case by simp
next
  case (Suc m)
  show ?case
  proof (cases "n = Suc m")
    case True
    have "filter (\<lambda>i. i < Suc m) [0..<Suc m] = [0..<Suc m]"
      by (rule filter_True) simp
    with True show ?thesis by simp
  next
    case False
    with Suc show ?thesis by simp
  qed
qed

lemma bits_list_prefix:
  assumes "\<And>i. bit_at b i = (i < n)" and "n \<le> 8 * length b"
  shows "bits_list b = [0..<n]"
proof -
  have "bit_at b = (\<lambda>i. i < n)" using assms(1) by auto
  with assms(2) show ?thesis by (simp add: bits_list_def filter_less_upt)
qed


lemma unat_div8: "unat ((x :: u64) div 8) = unat x div 8"
  by (simp add: unat_div)

lemma unat_mod8: "unat ((x :: u64) mod 8) = unat x mod 8"
  by (simp add: unat_mod)

lemma set_bmap_ok:
  assumes "set_bmap g idx 1 = Some (0, g')"
  shows "\<exists>b. bmap g = Some b \<and> unat idx div 8 < length b \<and>
             g' = g\<lparr>bmap := Some (b[unat idx div 8 :=
                        b ! (unat idx div 8) OR push_bit (unat idx mod 8) 1])\<rparr>"
  using assms
  by (auto simp: set_bmap_def Let_def unat_div8 unat_mod8 split: option.splits if_splits)

lemma unat_word_of_int_small:
  assumes "0 \<le> idx" and "idx < INT_MAX"
  shows "unat (word_of_int idx :: u64) = nat idx"
proof -
  have "nat idx < 2 ^ 64" using assms by (simp add: INT_MAX_def)
  then have "unat (of_nat (nat idx) :: u64) = nat idx" by (rule unat_of_nat64)
  with assms(1) show ?thesis by (simp only: word_of_int_nat)
qed

lemma unat_word_of_int_le:
  assumes "0 \<le> idx"
  shows "unat (word_of_int idx :: u64) \<le> nat idx"
proof -
  have "unat (of_nat (nat idx) :: u64) \<le> nat idx" by (simp add: unat_of_nat)
  with assms show ?thesis by (simp only: word_of_int_nat)
qed

lemma init_disk_loop_ok:
  assumes "init_disk_loop g idx = Some (0, g')" and "0 \<le> idx" and "bmap g = Some b"
  shows "\<exists>b'. g' = g\<lparr>bmap := Some b'\<rparr> \<and> length b' = length b \<and>
           (\<forall>i. bit_at b' i =
                  (bit_at b i \<or>
                   (nat idx \<le> i \<and> i < unat (data_block_number (super_block g) + 1)))) \<and>
           (\<forall>i. nat idx \<le> i \<and> i < unat (data_block_number (super_block g) + 1)
                  \<longrightarrow> i div 8 < length b)"
  using assms
proof (induction g idx arbitrary: b rule: init_disk_loop.induct)
  case (1 g idx)
  let ?n = "unat (data_block_number (super_block g) + 1)"
  show ?case
  proof (cases "(word_of_int idx :: u64) < data_block_number (super_block g) + 1")
    case False
    then have "?n \<le> nat idx"
      using unat_word_of_int_le [OF "1.prems"(2)] by (simp add: word_less_nat_alt)
    moreover have "g' = g" using False "1.prems"(1) by (simp add: init_disk_loop.simps [of g idx])
    ultimately show ?thesis using "1.prems"(3) by (intro exI [of _ b]) auto
  next
    case True
    from True "1.prems"(1) obtain r g1 where
      sb: "set_bmap g (word_of_int idx) 1 = Some (r, g1)"
      by (auto simp: init_disk_loop.simps [of g idx] split: option.splits)
    from True "1.prems"(1) sb have r: "r = 0" and lt: "idx < INT_MAX"
      and rec: "init_disk_loop g1 (idx + 1) = Some (0, g')"
      by (auto simp: init_disk_loop.simps [of g idx] split: if_splits)
    have u: "unat (word_of_int idx :: u64) = nat idx"
      using "1.prems"(2) lt by (rule unat_word_of_int_small)
    from set_bmap_ok [OF sb [unfolded r]] "1.prems"(3) u
    have inb: "nat idx div 8 < length b"
      and g1: "g1 = g\<lparr>bmap := Some (b[nat idx div 8 :=
                        b ! (nat idx div 8) OR push_bit (nat idx mod 8) 1])\<rparr>"
      by auto
    let ?b1 = "b[nat idx div 8 := b ! (nat idx div 8) OR push_bit (nat idx mod 8) 1]"
    have b1: "bmap g1 = Some ?b1" by (simp add: g1)
    have sbg: "super_block g1 = super_block g" by (simp add: g1)
    have nr: "\<not> r \<noteq> 0" using r by simp
    have ni: "\<not> INT_MAX \<le> idx" using lt by simp
    have p: "0 \<le> idx + 1" using "1.prems"(2) by simp
    from "1.IH" [OF True sb refl nr ni rec p b1]
    obtain b' where g': "g' = g1\<lparr>bmap := Some b'\<rparr>" and len: "length b' = length ?b1"
      and bits: "\<And>i. bit_at b' i = (bit_at ?b1 i \<or> (nat (idx + 1) \<le> i \<and> i < ?n))"
      and inr: "\<And>i. nat (idx + 1) \<le> i \<and> i < ?n \<Longrightarrow> i div 8 < length ?b1"
      unfolding sbg by auto
    have set1: "\<And>i. bit_at ?b1 i = (bit_at b i \<or> i = nat idx)"
      using bit_at_set [OF inb, of "nat idx mod 8"] by simp
    have nlt: "nat idx < ?n" using True u by (simp add: word_less_nat_alt)
    have suc: "nat (idx + 1) = Suc (nat idx)" using "1.prems"(2) by simp
    have "g' = g\<lparr>bmap := Some b'\<rparr>" by (simp add: g' g1)
    moreover have "length b' = length b" by (simp add: len)
    moreover have "\<forall>i. bit_at b' i = (bit_at b i \<or> (nat idx \<le> i \<and> i < ?n))"
      using bits set1 nlt suc by auto
    moreover have "\<forall>i. nat idx \<le> i \<and> i < ?n \<longrightarrow> i div 8 < length b"
    proof (intro allI impI)
      fix i assume i: "nat idx \<le> i \<and> i < ?n"
      show "i div 8 < length b"
      proof (cases "i = nat idx")
        case True
        with inb show ?thesis by simp
      next
        case False
        with i suc have "nat (idx + 1) \<le> i \<and> i < ?n" by simp
        from inr [OF this] show ?thesis by simp
      qed
    qed
    ultimately show ?thesis by blast
  qed
qed


lemma init_disk_stages:
  assumes "init_disk k e g fd path = Some (0, g')"
  shows "\<exists>g2. init_disk_loop (geometry k (g\<lparr>disk_size := get_file_size e path\<rparr>)) 0 = Some (0, g2) \<and>
              set_imap g2 = Some g'"
  using assms
  by (auto simp: init_disk_def Let_def layout_closed split: if_splits option.splits)

lemma geometry_bmap: "bmap (geometry k g) = Some (replicate (bitmap_bytes g) 0)"
  by (simp add: geometry_def bitmap_bytes_def Let_def)

lemma geometry_imap: "imap (geometry k g) = Some (replicate (bitmap_bytes g) 0)"
  by (simp add: geometry_def bitmap_bytes_def Let_def)

lemma geometry_dbn_succ:
  "unat (data_block_number (super_block (geometry k g)) + 1) =
     unat (data_block_number (super_block (geometry k g))) + 1"
proof -
  let ?d = "data_block_number (super_block (geometry k g))"
  define bc where "bc = unat (disk_size g) div 4096"
  define bm where "bm = (bc + 32767) div 32768"
  have S: "unat (disk_size g) < 2 ^ 64" using unsigned_less [of "disk_size g"] by simp
  have bc: "bc < 2 ^ 52" unfolding bc_def using S by simp
  have bm: "bm < 2 ^ 38" unfolding bm_def using bc by simp
  have t: "bc div 15 < 2 ^ 52" using bc by simp
  have "unat ?d = 2 + 2 * bm + bc div 15"
    using geometry_unat(9) [of k g] by (simp add: bc_def bm_def)
  then have "unat ?d + unat (1 :: u64) < 2 ^ 64" using bm t by simp
  then have "unat ?d + unat (1 :: u64) < 2 ^ LENGTH(64)" by simp
  then have "unat (?d + 1) = unat ?d + unat (1 :: u64)" by (simp only: unat_add_lem)
  then show ?thesis by simp
qed

text \<open>
  C3. Whenever \<open>init_disk\<close> returns 0, the bits set in the block bitmap are exactly bits
  0 through \<open>data_block_number\<close> inclusive (so \<open>data_block_number + 1\<close> of them), and the
  bits set in the inode bitmap are exactly bits 0 and 1.
\<close>

theorem init_disk_bitmaps:
  assumes "init_disk k e g fd path = Some (0, g')"
  shows "bits_list (buffer (bmap g')) = [0..<unat (data_block_number (super_block g')) + 1] \<and>
         length (bits_list (buffer (bmap g'))) = unat (data_block_number (super_block g')) + 1 \<and>
         bits_list (buffer (imap g')) = [0, 1] \<and>
         length (bits_list (buffer (imap g'))) = 2"
proof -
  let ?g0 = "g\<lparr>disk_size := get_file_size e path\<rparr>"
  let ?g1 = "geometry k ?g0"
  let ?L = "bitmap_bytes ?g0"
  let ?n = "unat (data_block_number (super_block ?g1)) + 1"
  from init_disk_stages [OF assms] obtain g2 where
    loop: "init_disk_loop ?g1 0 = Some (0, g2)" and im: "set_imap g2 = Some g'"
    by blast
  from init_disk_loop_ok [OF loop _ geometry_bmap]
  obtain b' where g2: "g2 = ?g1\<lparr>bmap := Some b'\<rparr>" and len: "length b' = ?L"
    and bits: "\<And>i. bit_at b' i = (i < ?n)"
    and inr: "\<And>i. i < ?n \<Longrightarrow> i div 8 < ?L"
    by (auto simp: bit_at_zero geometry_dbn_succ)
  have "(?n - 1) div 8 < ?L" by (rule inr) simp
  then have nL: "?n \<le> 8 * ?L" by simp
  then have Lpos: "0 < ?L" by simp
  have g': "g' = g2\<lparr>imap := Some ((replicate ?L 0)[0 := replicate ?L 0 ! 0 OR 3])\<rparr>"
    using im by (auto simp: set_imap_def g2 geometry_imap split: if_splits)
  have bm: "buffer (bmap g') = b'" by (simp add: g' g2 buffer_def)
  have dbn: "data_block_number (super_block g') = data_block_number (super_block ?g1)"
    by (simp add: g' g2)
  have nL': "?n \<le> 8 * length b'" using nL len by simp
  have 1: "bits_list b' = [0..<?n]"
    using bits nL' by (rule bits_list_prefix)
  have "bits_list ((replicate ?L 0)[0 := replicate ?L 0 ! 0 OR 3]) = [0..<2]"
    using bit_at_imap [OF Lpos] Lpos by (intro bits_list_prefix) simp_all
  moreover have "[0..<2] = [0, Suc 0]" by (simp add: upt_rec)
  ultimately have 2: "bits_list (buffer (imap g')) = [0, 1]"
    by (simp add: g' buffer_def)
  show ?thesis using 1 2 by (simp add: bm dbn)
qed

text \<open>The theorem on the 409600-byte sample device: bits 0 to 10, and bits 0 and 1.\<close>

theorem init_disk_bitmaps_witness:
  "init_disk sample_constants (sample_env 409600) globals_init 3 ''image'' =
     Some (0, sample_formatted) \<and>
   bits_list (buffer (bmap sample_formatted)) = [0, 1, 2, 3, 4, 5, 6, 7, 8, 9, 10] \<and>
   length (bits_list (buffer (bmap sample_formatted))) = 11 \<and>
   bits_list (buffer (imap sample_formatted)) = [0, 1] \<and>
   length (bits_list (buffer (imap sample_formatted))) = 2"
proof -
  have h: "init_disk sample_constants (sample_env 409600) globals_init 3 ''image'' =
     Some (0, sample_formatted)"
    by (rule init_disk_sample)
  have "unat (data_block_number (super_block sample_formatted)) + 1 = 11"
    by (simp add: sample_formatted_def)
  moreover have "[0..<11] = [0, 1, 2, 3, 4, 5, 6, 7, 8, 9, 10 :: nat]"
    by (simp add: upt_rec)
  ultimately show ?thesis
    using h init_disk_bitmaps [OF h] by simp
qed

section \<open>A run in which every call succeeds\<close>

lemma sys_write_full:
  assumes "write_result e (length (trace s)) = WFull"
  shows "sys_write e s fd b n =
    (of_nat n, \<lparr>pos = pos s + n,
               trace = trace s @ [\<lparr>w_fd = fd, w_at = pos s, w_buf = b, w_count = n, w_ret = of_nat n\<rparr>]\<rparr>)"
  using assms by (simp add: sys_write_def transferred_def Let_def)

lemma strlen_names:
  "Suc (strlen (c_string ''.'')) = 2" "Suc (strlen (c_string ''..'')) = 3"
  "Suc (strlen (c_string ''file'')) = 5"
  by (simp_all add: strlen_def c_string_def)

lemma memcpy_names:
  "2 \<le> cap \<Longrightarrow> memcpy cap dst (c_string ''.'') (Suc (strlen (c_string ''.''))) =
     Some (\<lambda>i. if i < 2 then c_string ''.'' ! i else dst i)"
  "3 \<le> cap \<Longrightarrow> memcpy cap dst (c_string ''..'') (Suc (strlen (c_string ''..''))) =
     Some (\<lambda>i. if i < 3 then c_string ''..'' ! i else dst i)"
  "5 \<le> cap \<Longrightarrow> memcpy cap dst (c_string ''file'') (Suc (strlen (c_string ''file''))) =
     Some (\<lambda>i. if i < 5 then c_string ''file'' ! i else dst i)"
  unfolding strlen_names memcpy_def by simp_all

lemma init_disk_result:
  assumes "init_disk k e g0 fd path = Some (0, g)"
  defines "g1 \<equiv> g0\<lparr>disk_size := get_file_size e path\<rparr>"
  shows "super_block g = super_block (geometry k g1)"
    and "bmap_size g = bmap_size (geometry k g1)"
    and "imap_size g = imap_size (geometry k g1)"
    and "inode_table_size g = inode_table_size (geometry k g1)"
    and "length (buffer (bmap g)) = bitmap_bytes g1"
    and "length (buffer (imap g)) = bitmap_bytes g1"
proof -
  from init_disk_stages [OF assms(1)] obtain g2 where
    loop: "init_disk_loop (geometry k g1) 0 = Some (0, g2)" and im: "set_imap g2 = Some g"
    unfolding g1_def by blast
  from init_disk_loop_ok [OF loop _ geometry_bmap]
  obtain b' where g2: "g2 = (geometry k g1)\<lparr>bmap := Some b'\<rparr>"
    and len: "length b' = bitmap_bytes g1"
    by auto
  from im have g: "g = (geometry k g1)\<lparr>bmap := Some b',
      imap := Some ((replicate (bitmap_bytes g1) 0)[0 := 3])\<rparr>"
    by (auto simp: set_imap_def g2 geometry_imap split: if_splits)
  show "super_block g = super_block (geometry k g1)"
    and "bmap_size g = bmap_size (geometry k g1)"
    and "imap_size g = imap_size (geometry k g1)"
    and "inode_table_size g = inode_table_size (geometry k g1)"
    and "length (buffer (bmap g)) = bitmap_bytes g1"
    and "length (buffer (imap g)) = bitmap_bytes g1"
    by (simp_all add: g len buffer_def)
qed

lemma geometry_unat_bytes:
  fixes g :: globals and k :: constants
  defines "G \<equiv> geometry k g"
  shows "unat (bmap_size G * HUST_BLOCKSIZE) = unat (bmap_size G) * 4096"
    and "unat (imap_size G * HUST_BLOCKSIZE) = unat (imap_size G) * 4096"
    and "unat (data_block_number (super_block G) * HUST_BLOCKSIZE) = unat (data_block_number (super_block G)) * 4096"
    and "unat (bmap_size G) * 4096 = bitmap_bytes g"
    and "unat (imap_size G) * 4096 = bitmap_bytes g"
    and "data_block_number (super_block G) * HUST_BLOCKSIZE \<noteq> - 1"
proof -
  define bc where "bc = unat (disk_size g) div 4096"
  define bm where "bm = (bc + 32767) div 32768"
  have S: "unat (disk_size g) < 2 ^ 64" using unsigned_less [of "disk_size g"] by simp
  have bc: "bc < 2 ^ 52" unfolding bc_def using S by simp
  have bm: "bm < 2 ^ 38" unfolding bm_def using bc by simp
  have t: "bc div 15 < 2 ^ 49" using bc by simp
  note u = geometry_unat [of k g, folded bc_def, folded bm_def, folded G_def]
  have "unat (bmap_size G) * unat HUST_BLOCKSIZE < 2 ^ LENGTH(64)"
    using bm by (simp add: u HUST_BLOCKSIZE_def)
  then have "unat (bmap_size G * HUST_BLOCKSIZE) = unat (bmap_size G) * unat HUST_BLOCKSIZE"
    by (simp only: unat_mult_lem)
  then show "unat (bmap_size G * HUST_BLOCKSIZE) = unat (bmap_size G) * 4096"
    by (simp add: HUST_BLOCKSIZE_def)
  have "unat (imap_size G) * unat HUST_BLOCKSIZE < 2 ^ LENGTH(64)"
    using bm by (simp add: u HUST_BLOCKSIZE_def)
  then have "unat (imap_size G * HUST_BLOCKSIZE) = unat (imap_size G) * unat HUST_BLOCKSIZE"
    by (simp only: unat_mult_lem)
  then show "unat (imap_size G * HUST_BLOCKSIZE) = unat (imap_size G) * 4096"
    by (simp add: HUST_BLOCKSIZE_def)
  have "unat (data_block_number (super_block G)) * unat HUST_BLOCKSIZE < 2 ^ LENGTH(64)"
    using bm t by (simp add: u HUST_BLOCKSIZE_def)
  then have "unat (data_block_number (super_block G) * HUST_BLOCKSIZE) =
             unat (data_block_number (super_block G)) * unat HUST_BLOCKSIZE"
    by (simp only: unat_mult_lem)
  then show d: "unat (data_block_number (super_block G) * HUST_BLOCKSIZE) =
             unat (data_block_number (super_block G)) * 4096"
    by (simp add: HUST_BLOCKSIZE_def)
  have "unat (data_block_number (super_block G)) * 4096 < 2 ^ 63"
    using bm t by (simp add: u)
  then have "unat (data_block_number (super_block G) * HUST_BLOCKSIZE) \<noteq> unat (- 1 :: u64)"
    unfolding d by (simp add: unsigned_minus_1_eq_mask mask_eq_exp_minus_1)
  then show "data_block_number (super_block G) * HUST_BLOCKSIZE \<noteq> - 1"
    by auto
  show "unat (bmap_size G) * 4096 = bitmap_bytes g"
    by (simp add: u bitmap_bytes_def bc_def bm_def)
  show "unat (imap_size G) * 4096 = bitmap_bytes g"
    by (simp add: u bitmap_bytes_def bc_def bm_def)
qed


lemma write_dummy_full:
  assumes "\<forall>i. write_result e i = WFull"
  shows "write_dummy e s fd =
    (0, \<lparr>pos = pos s + 4096,
         trace = trace s @ [\<lparr>w_fd = fd, w_at = pos s, w_buf = Raw (replicate 4096 0),
                             w_count = 4096, w_ret = 4096\<rparr>]\<rparr>)"
  by (simp add: write_dummy_def sys_write_full assms HUST_BLOCKSIZE_def)

lemma write_sb_full:
  assumes "\<forall>i. write_result e i = WFull"
  shows "write_sb e g s fd =
    (0, \<lparr>pos = pos s + 4096,
         trace = trace s @ [\<lparr>w_fd = fd, w_at = pos s, w_buf = SB (super_block g),
                             w_count = 4096, w_ret = 4096\<rparr>]\<rparr>)"
  by (simp add: write_sb_def sys_write_full assms HUST_BLOCKSIZE_def sizeof_super_block_def)

lemma write_bmap_full:
  assumes "\<forall>i. write_result e i = WFull"
    and "unat (bmap_size g * HUST_BLOCKSIZE) = unat (bmap_size g) * 4096"
  shows "write_bmap e g s fd =
    (0, \<lparr>pos = pos s + unat (bmap_size g) * 4096,
         trace = trace s @ [\<lparr>w_fd = fd, w_at = pos s, w_buf = Raw (buffer (bmap g)),
                             w_count = unat (bmap_size g) * 4096,
                             w_ret = of_nat (unat (bmap_size g) * 4096)\<rparr>]\<rparr>)"
  by (simp add: write_bmap_def sys_write_full assms(1) assms(2) [unfolded HUST_BLOCKSIZE_def]
        HUST_BLOCKSIZE_def)

lemma write_imap_full:
  assumes "\<forall>i. write_result e i = WFull"
    and "unat (imap_size g * HUST_BLOCKSIZE) = unat (imap_size g) * 4096"
  shows "write_imap e g s fd =
    (0, \<lparr>pos = pos s + unat (imap_size g) * 4096,
         trace = trace s @ [\<lparr>w_fd = fd, w_at = pos s, w_buf = Raw (buffer (imap g)),
                             w_count = unat (imap_size g) * 4096,
                             w_ret = of_nat (unat (imap_size g) * 4096)\<rparr>]\<rparr>)"
  by (simp add: write_imap_def sys_write_full assms(1) assms(2) [unfolded HUST_BLOCKSIZE_def]
        HUST_BLOCKSIZE_def)

lemma write_itable_full:
  assumes wr: "\<forall>i. write_result e i = WFull" and ls: "lseek_ok e"
    and cap: "5 \<le> HUST_FILENAME_MAX_LEN k"
    and d: "unat (data_block_number (super_block g) * HUST_BLOCKSIZE) =
            unat (data_block_number (super_block g)) * 4096"
    and nowrap: "data_block_number (super_block g) * HUST_BLOCKSIZE \<noteq> - 1"
  shows "write_itable k e g s fd =
    Some (0, \<lparr>pos = unat (data_block_number (super_block g)) * 4096 + 3 * sizeof_dir_record k,
         trace = trace s @ itable_trace k e g fd (pos s)\<rparr>)"
  using ls cap nowrap [unfolded HUST_BLOCKSIZE_def]
  by (simp add: write_itable_def Let_def sys_write_full wr HUST_INODE_SIZE_def memcpy_names
        sys_lseek_def HUST_BLOCKSIZE_def d [unfolded HUST_BLOCKSIZE_def] itable_trace_def)

lemma main_success:
  assumes fd: "open_result e path \<noteq> - 1"
    and init: "init_disk k e globals_init (open_result e path) path = Some (0, g)"
    and wr: "\<forall>i. write_result e i = WFull" and ls: "lseek_ok e"
    and cap: "5 \<le> HUST_FILENAME_MAX_LEN k"
  shows "main k e [prog, path] =
    Some (1, \<lparr>pos = unat (data_block_number (super_block g)) * 4096 + 3 * sizeof_dir_record k,
              trace = full_trace k e g (open_result e path)\<rparr>)"
proof -
  let ?g1 = "globals_init\<lparr>disk_size := get_file_size e path\<rparr>"
  note r = init_disk_result [OF init]
  note b = geometry_unat_bytes [of k ?g1, folded r]
  show ?thesis
    using fd
    by (simp add: main_def init write_dummy_full [OF wr] write_sb_full [OF wr]
        write_bmap_full [OF wr b(1)] write_imap_full [OF wr b(2)]
        write_itable_full [OF wr ls cap b(3) b(6)] sys_init_def full_trace_def Let_def)
qed


section \<open>No device-size check (claim C4)\<close>

lemma set_bmap_in_range:
  assumes b: "bmap g = Some b" and i: "unat idx div 8 < length b"
    and len: "length b \<le> unat (bmap_size g * HUST_BLOCKSIZE)"
  shows "set_bmap g idx 1 =
    Some (0, g\<lparr>bmap := Some (b[unat idx div 8 :=
                      b ! (unat idx div 8) OR push_bit (unat idx mod 8) 1])\<rparr>)"
proof -
  have "unat (idx div 8) \<le> unat (bmap_size g * HUST_BLOCKSIZE)"
    using i len by (simp add: unat_div8)
  then have "\<not> idx div 8 > bmap_size g * HUST_BLOCKSIZE"
    by (simp add: word_less_nat_alt)
  with b i show ?thesis
    by (simp add: set_bmap_def Let_def unat_div8 unat_mod8)
qed

lemma unat_word_of_int_max:
  assumes "0 \<le> idx" and "idx \<le> INT_MAX"
  shows "unat (word_of_int idx :: u64) = nat idx"
proof -
  have "nat idx < 2 ^ 64" using assms by (simp add: INT_MAX_def)
  then have "unat (of_nat (nat idx) :: u64) = nat idx" by (rule unat_of_nat64)
  with assms(1) show ?thesis by (simp only: word_of_int_nat)
qed

lemma init_disk_loop_succeeds:
  assumes "bmap g = Some b" and "0 \<le> idx" and "idx \<le> INT_MAX"
    and "unat (data_block_number (super_block g) + 1) \<le> 8 * length b"
    and "unat (data_block_number (super_block g) + 1) \<le> 2147483647"
    and "length b \<le> unat (bmap_size g * HUST_BLOCKSIZE)"
  shows "\<exists>g'. init_disk_loop g idx = Some (0, g')"
  using assms
proof (induction g idx arbitrary: b rule: init_disk_loop.induct)
  case (1 g idx)
  let ?n = "unat (data_block_number (super_block g) + 1)"
  show ?case
  proof (cases "(word_of_int idx :: u64) < data_block_number (super_block g) + 1")
    case False
    then show ?thesis by (simp add: init_disk_loop.simps [of g idx])
  next
    case True
    have u: "unat (word_of_int idx :: u64) = nat idx"
      using "1.prems"(2,3) by (rule unat_word_of_int_max)
    have lt: "nat idx < ?n" using True u by (simp add: word_less_nat_alt)
    then have inb: "unat (word_of_int idx :: u64) div 8 < length b"
      using "1.prems"(4) u by simp
    let ?b1 = "b[unat (word_of_int idx :: u64) div 8 :=
                 b ! (unat (word_of_int idx :: u64) div 8)
                 OR push_bit (unat (word_of_int idx :: u64) mod 8) 1]"
    let ?g1 = "g\<lparr>bmap := Some ?b1\<rparr>"
    have sb: "set_bmap g (word_of_int idx) 1 = Some (0, ?g1)"
      using "1.prems"(1) inb "1.prems"(6) by (rule set_bmap_in_range)
    have ni: "\<not> INT_MAX \<le> idx"
      using lt "1.prems"(5) "1.prems"(2) by (simp add: INT_MAX_def)
    have nr: "\<not> (0 :: int) \<noteq> 0" by simp
    have "\<exists>g'. init_disk_loop ?g1 (idx + 1) = Some (0, g')"
    proof (rule "1.IH" [OF True sb refl nr ni])
      show "bmap ?g1 = Some ?b1" by simp
      show "0 \<le> idx + 1" using "1.prems"(2) by simp
      show "idx + 1 \<le> INT_MAX" using ni by simp
      show "unat (data_block_number (super_block ?g1) + 1) \<le> 8 * length ?b1"
        using "1.prems"(4) by simp
      show "unat (data_block_number (super_block ?g1) + 1) \<le> 2147483647"
        using "1.prems"(5) by simp
      show "length ?b1 \<le> unat (bmap_size ?g1 * HUST_BLOCKSIZE)"
        using "1.prems"(6) by simp
    qed
    then show ?thesis
      using True sb ni by (simp add: init_disk_loop.simps [of g idx])
  qed
qed


lemma ceil_bounds:
  fixes n d :: nat
  assumes "0 < d"
  shows "n \<le> d * ((n + (d - 1)) div d)" and "d * ((n + (d - 1)) div d) < n + d"
proof -
  define m where "m = n + (d - 1)"
  define q r where "q = m div d" and "r = m mod d"
  have m: "q * d + r = m" unfolding q_def r_def by (rule div_mult_mod_eq)
  have r: "r < d" unfolding r_def using assms by (rule mod_less_divisor)
  have "n \<le> d * q" using m r assms unfolding m_def by (simp add: mult.commute)
  then show "n \<le> d * ((n + (d - 1)) div d)" unfolding q_def m_def .
  have "d * q < n + d" using m r assms unfolding m_def by (simp add: mult.commute)
  then show "d * ((n + (d - 1)) div d) < n + d" unfolding q_def m_def .
qed

lemma layout_bounds:
  fixes bc :: nat
  defines "bm \<equiv> (bc + 32767) div 32768"
  assumes "1 \<le> bc" and "bc < 2 ^ 34"
  shows "3 + 2 * bm + bc div 15 \<le> 8 * (bm * 4096)"
    and "3 + 2 * bm + bc div 15 \<le> 2147483647"
    and "0 < bm * 4096"
proof -
  have c1: "bc \<le> 32768 * bm" and c2: "32768 * bm < bc + 32768"
    using ceil_bounds [of 32768 bc] by (simp_all add: bm_def)
  have t: "15 * (bc div 15) \<le> bc" by (rule times_div_less_eq_dividend)
  have bm1: "1 \<le> bm" using c1 assms(2) by linarith
  show "3 + 2 * bm + bc div 15 \<le> 8 * (bm * 4096)" using c1 t bm1 by linarith
  show "3 + 2 * bm + bc div 15 \<le> 2147483647" using c2 t assms(3) by simp
  show "0 < bm * 4096" using bm1 by simp
qed


lemma init_disk_succeeds:
  assumes st: "st_size e path = Some S" and lo: "4096 \<le> unat S" and hi: "unat S < 2 ^ 46"
    and m: "\<forall>i n. malloc_ok e i n"
  shows "\<exists>g'. init_disk k e g fd path = Some (0, g')"
proof -
  let ?g1 = "g\<lparr>disk_size := S\<rparr>"
  let ?G = "geometry k ?g1"
  let ?L = "bitmap_bytes ?g1"
  define bc where "bc = unat S div 4096"
  define bm where "bm = (bc + 32767) div 32768"
  have bc1: "1 \<le> bc" using lo unfolding bc_def by simp
  have bc2: "bc < 2 ^ 34" using hi unfolding bc_def by simp
  note lb = layout_bounds [OF bc1 bc2, folded bm_def]
  have L: "?L = bm * 4096" by (simp add: bitmap_bytes_def bc_def bm_def)
  have d: "unat (data_block_number (super_block ?G) + 1) = 3 + 2 * bm + bc div 15"
    using geometry_unat(9) [of k ?g1] by (simp add: geometry_dbn_succ bc_def bm_def)
  have gfs: "get_file_size e path = S" using st by (simp add: get_file_size_def)
  have "unat S \<noteq> unat (- 1 :: u64)"
    using hi by (simp add: unsigned_minus_1_eq_mask mask_eq_exp_minus_1)
  then have ne: "S \<noteq> - 1" by auto
  have lay: "init_disk_layout k e ?g1 = Some ?G" using m by (simp add: layout_closed)
  have "\<exists>g2. init_disk_loop ?G 0 = Some (0, g2)"
  proof (rule init_disk_loop_succeeds [OF geometry_bmap])
    show "(0 :: int) \<le> 0" by simp
    show "0 \<le> INT_MAX" by (simp add: INT_MAX_def)
    show "unat (data_block_number (super_block ?G) + 1) \<le> 8 * length (replicate ?L (0 :: u8))"
      using lb(1) by (simp add: d L)
    show "unat (data_block_number (super_block ?G) + 1) \<le> 2147483647"
      using lb(2) by (simp add: d)
    show "length (replicate ?L (0 :: u8)) \<le> unat (bmap_size ?G * HUST_BLOCKSIZE)"
      using geometry_unat_bytes(1,4) [of k ?g1] by simp
  qed
  then obtain g2 where loop: "init_disk_loop ?G 0 = Some (0, g2)" by blast
  from init_disk_loop_ok [OF loop _ geometry_bmap]
  obtain b' where g2: "g2 = ?G\<lparr>bmap := Some b'\<rparr>" by auto
  have "0 < ?L" using lb(3) by (simp add: L)
  then have "\<exists>g'. set_imap g2 = Some g'"
    by (simp add: set_imap_def g2 geometry_imap)
  then show ?thesis
    using ne by (auto simp: init_disk_def Let_def gfs lay loop)
qed

lemma min_size_nat:
  fixes bc :: nat
  defines "bm \<equiv> (bc + 32767) div 32768"
  assumes "1 \<le> bc"
  shows "(bc = 3 + 2 * bm + bc div 15) = (bc = 5)"
    and "bc < 5 \<Longrightarrow> 2 + 2 * bm + bc div 15 = 4"
proof -
  have c1: "bc \<le> 32768 * bm" and c2: "32768 * bm < bc + 32768"
    using ceil_bounds [of 32768 bc] by (simp_all add: bm_def)
  have t: "15 * (bc div 15) \<le> bc" by (rule times_div_less_eq_dividend)
  have bm1: "1 \<le> bm" using c1 assms(2) by linarith
  show "(bc = 3 + 2 * bm + bc div 15) = (bc = 5)"
  proof
    assume eq: "bc = 3 + 2 * bm + bc div 15"
    have "bc \<le> 5" using eq c2 t by linarith
    moreover have "5 \<le> bc" using eq bm1 by linarith
    ultimately show "bc = 5" by simp
  next
    assume "bc = 5"
    then show "bc = 3 + 2 * bm + bc div 15" by (simp add: bm_def)
  qed
  show "2 + 2 * bm + bc div 15 = 4" if "bc < 5"
  proof -
    have "bm \<le> 1" using c2 that by linarith
    with bm1 have "bm = 1" by simp
    moreover have "bc div 15 = 0" using that by simp
    ultimately show ?thesis by simp
  qed
qed


lemma word_diff_zero: "((a :: u64) - b - 1 = 0) = (a = b + 1)"
  by (simp add: algebra_simps)

lemma run_summary:
  fixes k :: constants and S :: u64
  defines "G \<equiv> geometry k (globals_init\<lparr>disk_size := S\<rparr>)"
  defines "nb \<equiv> unat (bmap_size G) * 4096"
  defines "ni \<equiv> unat (imap_size G) * 4096"
  defines "d \<equiv> unat (data_block_number (super_block G)) * 4096"
  defines "n \<equiv> sizeof_dir_record k"
  assumes st: "st_size e path = Some S" and lo: "4096 \<le> unat S" and hi: "unat S < 2 ^ 46"
    and m: "\<forall>i n. malloc_ok e i n"
  shows "map_option fst (init_disk k e globals_init fd path) = Some 0"
    and "map_option (super_block \<circ> snd) (init_disk k e globals_init fd path) = Some (super_block G)"
    and "open_result e path \<noteq> - 1 \<Longrightarrow> \<forall>i. write_result e i = WFull \<Longrightarrow> lseek_ok e \<Longrightarrow>
         5 \<le> HUST_FILENAME_MAX_LEN k \<Longrightarrow>
         map_option fst (main k e [prog, path]) = Some 1 \<and>
         map_option (map w_at \<circ> trace \<circ> snd) (main k e [prog, path]) =
           Some [0, 4096, 8192, 8192 + nb, 8192 + nb + ni, 8192 + nb + ni + 264,
                 d, d + n, d + 2 * n] \<and>
         map_option (map w_count \<circ> trace \<circ> snd) (main k e [prog, path]) =
           Some [4096, 4096, nb, ni, 264, 264, n, n, n] \<and>
         map_option (map (is_INODE \<circ> w_buf) \<circ> trace \<circ> snd) (main k e [prog, path]) =
           Some [False, False, False, False, True, True, False, False, False]"
proof -
  have gfs: "get_file_size e path = S" using st by (simp add: get_file_size_def)
  from init_disk_succeeds [OF st lo hi m] obtain g' where
    init: "init_disk k e globals_init fd path = Some (0, g')" by blast
  note r = init_disk_result [OF init, unfolded gfs, folded G_def]
  show "map_option fst (init_disk k e globals_init fd path) = Some 0"
    by (simp add: init)
  show "map_option (super_block \<circ> snd) (init_disk k e globals_init fd path) = Some (super_block G)"
    by (simp add: init r)
  show "map_option fst (main k e [prog, path]) = Some 1 \<and>
         map_option (map w_at \<circ> trace \<circ> snd) (main k e [prog, path]) =
           Some [0, 4096, 8192, 8192 + nb, 8192 + nb + ni, 8192 + nb + ni + 264,
                 d, d + n, d + 2 * n] \<and>
         map_option (map w_count \<circ> trace \<circ> snd) (main k e [prog, path]) =
           Some [4096, 4096, nb, ni, 264, 264, n, n, n] \<and>
         map_option (map (is_INODE \<circ> w_buf) \<circ> trace \<circ> snd) (main k e [prog, path]) =
           Some [False, False, False, False, True, True, False, False, False]"
    if fd: "open_result e path \<noteq> - 1" and wr: "\<forall>i. write_result e i = WFull"
      and ls: "lseek_ok e" and cap: "5 \<le> HUST_FILENAME_MAX_LEN k"
  proof -
    from init_disk_succeeds [OF st lo hi m] obtain g where
      init': "init_disk k e globals_init (open_result e path) path = Some (0, g)" by blast
    note r' = init_disk_result [OF init', unfolded gfs, folded G_def]
    show ?thesis
      unfolding main_success [OF fd init' wr ls cap]
      by (simp add: full_trace_def itable_trace_def Let_def r' nb_def ni_def d_def n_def)
  qed
qed

text \<open>
  C4, as amended. \<open>init_disk\<close> has no device-too-small check: for every device of at
  least one block (and below 2^46 bytes, so that the \<open>int\<close> loop counter cannot overflow)
  whose size can be read and for which the allocations succeed, it returns 0, with
  \<open>free_blocks = blocks_count - data_block_number - 1\<close> in 64-bit unsigned arithmetic.
  \<open>free_blocks\<close> is 0 exactly on the 5-block device, the smallest on which
  \<open>data_block_number < blocks_count\<close>; on a device of 1 to 4 blocks the subtraction
  wraps around (\<open>blocks_count - 5\<close> modulo 2^64) and the call still returns 0.
\<close>

theorem init_disk_no_size_check:
  assumes st: "st_size e path = Some S" and lo: "4096 \<le> unat S" and hi: "unat S < 2 ^ 46"
    and m: "\<forall>i n. malloc_ok e i n"
  shows "\<exists>g'. init_disk k e g fd path = Some (0, g') \<and>
           free_blocks (super_block g') =
             blocks_count (super_block g') - data_block_number (super_block g') - 1 \<and>
           (free_blocks (super_block g') = 0) = (unat S div 4096 = 5) \<and>
           (unat S div 4096 < 5 \<longrightarrow>
              free_blocks (super_block g') = of_nat (unat S div 4096) - 5)"
proof -
  let ?g1 = "g\<lparr>disk_size := S\<rparr>"
  let ?G = "geometry k ?g1"
  define bc where "bc = unat S div 4096"
  define bm where "bm = (bc + 32767) div 32768"
  have bc1: "1 \<le> bc" using lo unfolding bc_def by simp
  have bc2: "bc < 2 ^ 34" using hi unfolding bc_def by simp
  from init_disk_succeeds [OF st lo hi m] obtain g' where
    init: "init_disk k e g fd path = Some (0, g')" by blast
  have gfs: "get_file_size e path = S" using st by (simp add: get_file_size_def)
  have sb: "super_block g' = super_block ?G"
    using init_disk_result(1) [OF init] by (simp add: gfs)
  have fb: "free_blocks (super_block ?G) = of_nat bc - of_nat (2 + 2 * bm + bc div 15) - 1"
    by (simp add: geometry_def Let_def bc_def bm_def)
  note mn = min_size_nat [OF bc1, folded bm_def]
  have small: "3 + 2 * bm + bc div 15 < 2 ^ 64"
    using layout_bounds(2) [OF bc1 bc2, folded bm_def] by simp
  have "(free_blocks (super_block ?G) = 0) =
          ((of_nat bc :: u64) = of_nat (3 + 2 * bm + bc div 15))"
    unfolding fb word_diff_zero by (simp add: add.assoc)
  also have "\<dots> = (bc = 3 + 2 * bm + bc div 15)"
  proof -
    have "bc < 2 ^ 64" using bc2 by simp
    then show ?thesis using small
      by (metis unat_of_nat64)
  qed
  also have "\<dots> = (bc = 5)" by (rule mn(1))
  finally have z: "(free_blocks (super_block ?G) = 0) = (bc = 5)" .
  have w: "bc < 5 \<Longrightarrow> free_blocks (super_block ?G) = of_nat bc - 5"
    using mn(2) by (simp add: fb)
  show ?thesis
    using init z w
    by (intro exI [of _ g']) (simp add: sb geometry_free_blocks bc_def)
qed

text \<open>
  The theorem on the 5-block sample device (20480 bytes): \<open>init_disk\<close> returns 0 and
  \<open>free_blocks\<close> is 0.
\<close>

theorem init_disk_no_size_check_witness:
  "st_size (sample_env 20480) ''image'' = Some 20480 \<and>
   4096 \<le> unat (20480 :: u64) \<and> unat (20480 :: u64) < 2 ^ 46 \<and>
   (\<forall>i n. malloc_ok (sample_env 20480) i n) \<and>
   (\<exists>g'. init_disk sample_constants (sample_env 20480) globals_init 3 ''image'' = Some (0, g') \<and>
         free_blocks (super_block g') = 0)"
proof -
  have h: "st_size (sample_env 20480) ''image'' = Some 20480"
    "4096 \<le> unat (20480 :: u64)" "unat (20480 :: u64) < 2 ^ 46"
    "\<forall>i n. malloc_ok (sample_env 20480) i n"
    by (simp_all add: sample_env_def)
  show ?thesis
    using h init_disk_no_size_check [OF h, of sample_constants globals_init 3] by auto
qed

text \<open>
  C4 as stated fails one block below that size. On the 4-block sample device (16384
  bytes) \<open>blocks_count = data_block_number = 4\<close>, so \<open>free_blocks\<close> would be -1; yet
  \<open>init_disk\<close> returns 0 with \<open>free_blocks = 2^64 - 1\<close>, and \<open>main\<close> issues all nine writes
  (the last five at and beyond offset 16384, the end of the device) and returns 1.
\<close>

theorem small_device_not_rejected:
  "map_option fst (init_disk sample_constants (sample_env 16384) globals_init 3 ''image'') = Some 0 \<and>
   map_option (blocks_count \<circ> super_block \<circ> snd)
     (init_disk sample_constants (sample_env 16384) globals_init 3 ''image'') = Some 4 \<and>
   map_option (data_block_number \<circ> super_block \<circ> snd)
     (init_disk sample_constants (sample_env 16384) globals_init 3 ''image'') = Some 4 \<and>
   map_option (free_blocks \<circ> super_block \<circ> snd)
     (init_disk sample_constants (sample_env 16384) globals_init 3 ''image'') =
     Some 18446744073709551615 \<and>
   map_option fst (main sample_constants (sample_env 16384) [''mkfs'', ''image'']) = Some 1 \<and>
   map_option (map w_at \<circ> trace \<circ> snd)
     (main sample_constants (sample_env 16384) [''mkfs'', ''image'']) =
     Some [0, 4096, 8192, 12288, 16384, 16648, 16384, 16648, 16912]"
proof -
  have h: "st_size (sample_env 16384) ''image'' = Some 16384"
    "4096 \<le> unat (16384 :: u64)" "unat (16384 :: u64) < 2 ^ 46"
    "\<forall>i n. malloc_ok (sample_env 16384) i n"
    by (simp_all add: sample_env_def)
  have e: "open_result (sample_env 16384) ''image'' \<noteq> - 1"
    "\<forall>i. write_result (sample_env 16384) i = WFull" "lseek_ok (sample_env 16384)"
    "5 \<le> HUST_FILENAME_MAX_LEN sample_constants"
    by (simp_all add: sample_env_def sample_constants_def)
  have G: "blocks_count (super_block (geometry sample_constants (globals_init\<lparr>disk_size := 16384\<rparr>))) = 4"
    "data_block_number (super_block (geometry sample_constants (globals_init\<lparr>disk_size := 16384\<rparr>))) = 4"
    "free_blocks (super_block (geometry sample_constants (globals_init\<lparr>disk_size := 16384\<rparr>))) = 18446744073709551615"
    "bmap_size (geometry sample_constants (globals_init\<lparr>disk_size := 16384\<rparr>)) = 1"
    "imap_size (geometry sample_constants (globals_init\<lparr>disk_size := 16384\<rparr>)) = 1"
    by (simp_all add: geometry_def)
  have n: "sizeof_dir_record sample_constants = 264"
    by (simp add: sizeof_dir_record_def sample_constants_def)
  have i: "init_disk sample_constants (sample_env 16384) globals_init 3 ''image'' \<noteq> None"
    using run_summary(1) [OF h, of sample_constants 3] by auto
  have o: "open_result (sample_env 16384) ''image'' = 3" by (simp add: sample_env_def)
  show ?thesis
    using run_summary(1,2) [OF h, of sample_constants 3] i
      run_summary(3) [OF h e, of "''mkfs''"]
    by (auto simp: G n o option.map_comp [symmetric] simp del: option.map_comp)
qed

section \<open>The geometry (claim C1)\<close>

lemma init_disk_nonempty:
  assumes "init_disk k e g fd path = Some (0, g')"
  shows "0 < bitmap_bytes (g\<lparr>disk_size := get_file_size e path\<rparr>)"
proof -
  let ?g1 = "g\<lparr>disk_size := get_file_size e path\<rparr>"
  from init_disk_stages [OF assms] obtain g2 where
    loop: "init_disk_loop (geometry k ?g1) 0 = Some (0, g2)" by blast
  from init_disk_loop_ok [OF loop _ geometry_bmap]
  have inr: "\<And>i. i < unat (data_block_number (super_block (geometry k ?g1))) + 1 \<Longrightarrow>
                 i div 8 < bitmap_bytes ?g1"
    by (auto simp: geometry_dbn_succ)
  have "(0 :: nat) div 8 < bitmap_bytes ?g1" by (rule inr) simp
  then show ?thesis by simp
qed

text \<open>
  C1, as amended. Whenever \<open>init_disk\<close> returns 0 on a device of S bytes, the device has
  at least one whole block (\<open>B \<le> S\<close>) and the globals hold: \<open>blocks_count = S div B\<close>;
  \<open>inodes_count = blocks_count\<close>; \<open>bmap_size\<close> and \<open>imap_size\<close> the ceiling of the count
  over \<open>8 * B\<close>, each at least 1; \<open>inode_table_size\<close> the floor of
  \<open>inodes_count / (B div inode_record_size)\<close>; \<open>data_block_number\<close> the reserved blocks
  plus the three sizes; and \<open>free_blocks = blocks_count - data_block_number - 1\<close> in
  64-bit unsigned arithmetic, which is the difference of the natural numbers when
  \<open>data_block_number < blocks_count\<close> and wraps around otherwise.
\<close>

theorem init_disk_geometry:
  assumes st: "st_size e path = Some S" and init: "init_disk k e g fd path = Some (0, g')"
  defines "sb \<equiv> super_block g'"
  defines "bc \<equiv> unat S div unat HUST_BLOCKSIZE"
  defines "per_block \<equiv> 8 * unat HUST_BLOCKSIZE"
  shows "unat HUST_BLOCKSIZE \<le> unat S \<and>
         unat (blocks_count sb) = bc \<and>
         inodes_count sb = blocks_count sb \<and>
         unat (bmap_size g') = (bc + (per_block - 1)) div per_block \<and>
         1 \<le> unat (bmap_size g') \<and>
         unat (imap_size g') = (unat (inodes_count sb) + (per_block - 1)) div per_block \<and>
         1 \<le> unat (imap_size g') \<and>
         unat (inode_table_size g') =
           unat (inodes_count sb) div (unat HUST_BLOCKSIZE div unat HUST_INODE_SIZE) \<and>
         unat (data_block_number sb) =
           unat RESERVE_BLOCKS + unat (bmap_size g') + unat (imap_size g') +
           unat (inode_table_size g') \<and>
         free_blocks sb = blocks_count sb - data_block_number sb - 1 \<and>
         (unat (data_block_number sb) < bc \<longrightarrow>
            unat (free_blocks sb) = bc - unat (data_block_number sb) - 1)"
proof -
  let ?g1 = "g\<lparr>disk_size := S\<rparr>"
  let ?G = "geometry k ?g1"
  have gfs: "get_file_size e path = S" using st by (simp add: get_file_size_def)
  note r = init_disk_result [OF init, unfolded gfs]
  define bm where "bm = (bc + 32767) div 32768"
  have bc': "bc = unat (disk_size ?g1) div 4096"
    by (simp add: bc_def HUST_BLOCKSIZE_def)
  note u = geometry_unat [of k ?g1, folded bc', folded bm_def]
  have pb: "per_block = 32768" by (simp add: per_block_def HUST_BLOCKSIZE_def)
  have "0 < bitmap_bytes ?g1" using init_disk_nonempty [OF init] by (simp add: gfs)
  then have bmpos: "0 < bm" by (simp add: bitmap_bytes_def bm_def bc')
  have bcpos: "0 < bc"
  proof (rule ccontr)
    assume "\<not> 0 < bc"
    then have "bm = 0" by (simp add: bm_def)
    with bmpos show False by simp
  qed
  then have S: "4096 \<le> unat S"
    unfolding bc_def HUST_BLOCKSIZE_def by (simp add: div_greater_zero_iff)
  have fb: "unat (data_block_number sb) < bc \<Longrightarrow>
            unat (free_blocks sb) = bc - unat (data_block_number sb) - 1"
    using unat_free_blocks [of "data_block_number sb" "blocks_count sb"]
    by (simp add: sb_def r geometry_free_blocks u(1))
  show ?thesis
    using fb S bmpos
    by (simp add: sb_def r u pb geometry_free_blocks HUST_BLOCKSIZE_def
          HUST_INODE_SIZE_def RESERVE_BLOCKS_def bm_def [symmetric])
       (simp add: geometry_def Let_def)
qed

text \<open>The theorem on the 409600-byte sample device: 100, 1, 1, 6, 10 and 89.\<close>

theorem init_disk_geometry_witness:
  "st_size (sample_env 409600) ''image'' = Some 409600 \<and>
   init_disk sample_constants (sample_env 409600) globals_init 3 ''image'' =
     Some (0, sample_formatted) \<and>
   unat (blocks_count (super_block sample_formatted)) = 100 \<and>
   unat (bmap_size sample_formatted) = 1 \<and>
   unat (imap_size sample_formatted) = 1 \<and>
   unat (inode_table_size sample_formatted) = 6 \<and>
   unat (data_block_number (super_block sample_formatted)) = 10 \<and>
   unat (free_blocks (super_block sample_formatted)) = 89"
proof -
  have st: "st_size (sample_env 409600) ''image'' = Some 409600"
    by (simp add: sample_env_def)
  have h: "init_disk sample_constants (sample_env 409600) globals_init 3 ''image'' =
     Some (0, sample_formatted)"
    by (rule init_disk_sample)
  show ?thesis
    using st h init_disk_geometry [OF st h]
    by (auto simp: HUST_BLOCKSIZE_def HUST_INODE_SIZE_def RESERVE_BLOCKS_def)
qed

text \<open>
  C1 as stated fails for \<open>free_blocks\<close> on a device of exactly one block (4096
  bytes): \<open>init_disk\<close> returns 0 with \<open>blocks_count = 1\<close> and \<open>data_block_number = 4\<close>, and
  \<open>free_blocks\<close> is not \<open>1 - 4 - 1\<close> but that difference wrapped to \<open>2^64 - 4\<close>.
\<close>

theorem one_block_device_free_blocks:
  "map_option fst (init_disk sample_constants (sample_env 4096) globals_init 3 ''image'') = Some 0 \<and>
   map_option (uint \<circ> blocks_count \<circ> super_block \<circ> snd)
     (init_disk sample_constants (sample_env 4096) globals_init 3 ''image'') = Some 1 \<and>
   map_option (uint \<circ> data_block_number \<circ> super_block \<circ> snd)
     (init_disk sample_constants (sample_env 4096) globals_init 3 ''image'') = Some 4 \<and>
   map_option (uint \<circ> free_blocks \<circ> super_block \<circ> snd)
     (init_disk sample_constants (sample_env 4096) globals_init 3 ''image'') =
     Some 18446744073709551612 \<and>
   map_option (uint \<circ> free_blocks \<circ> super_block \<circ> snd)
     (init_disk sample_constants (sample_env 4096) globals_init 3 ''image'') \<noteq>
     Some (1 - 4 - 1)"
proof -
  have h: "st_size (sample_env 4096) ''image'' = Some 4096"
    "4096 \<le> unat (4096 :: u64)" "unat (4096 :: u64) < 2 ^ 46"
    "\<forall>i n. malloc_ok (sample_env 4096) i n"
    by (simp_all add: sample_env_def)
  have G: "blocks_count (super_block (geometry sample_constants (globals_init\<lparr>disk_size := 4096\<rparr>))) = 1"
    "data_block_number (super_block (geometry sample_constants (globals_init\<lparr>disk_size := 4096\<rparr>))) = 4"
    "free_blocks (super_block (geometry sample_constants (globals_init\<lparr>disk_size := 4096\<rparr>))) = 18446744073709551612"
    by (simp_all add: geometry_def)
  have i: "init_disk sample_constants (sample_env 4096) globals_init 3 ''image'' \<noteq> None"
    using run_summary(1) [OF h, of sample_constants 3] by auto
  show ?thesis
    using run_summary(1,2) [OF h, of sample_constants 3] i
    by (auto simp: G option.map_comp [symmetric] simp del: option.map_comp)
qed

section \<open>The order and positions of the writes (claim C7)\<close>

lemma init_disk_blocks:
  assumes "init_disk k e g0 fd path = Some (0, g)"
  shows "unat (bmap_block (super_block g)) = 2"
    and "unat (imap_block (super_block g)) = 2 + unat (bmap_size g)"
    and "unat (inode_table_block (super_block g)) = 2 + unat (bmap_size g) + unat (imap_size g)"
    and "unat (data_block_number (super_block g)) =
           2 + unat (bmap_size g) + unat (imap_size g) + unat (inode_table_size g)"
    and "length (buffer (bmap g)) = unat (bmap_size g) * 4096"
    and "length (buffer (imap g)) = unat (imap_size g) * 4096"
proof -
  let ?g1 = "g0\<lparr>disk_size := get_file_size e path\<rparr>"
  note r = init_disk_result [OF assms]
  note u = geometry_unat [of k ?g1]
  note b = geometry_unat_bytes [of k ?g1]
  show "unat (bmap_block (super_block g)) = 2" by (simp add: r u)
  show "unat (imap_block (super_block g)) = 2 + unat (bmap_size g)" by (simp add: r u)
  show "unat (inode_table_block (super_block g)) = 2 + unat (bmap_size g) + unat (imap_size g)"
    by (simp add: r u)
  show "unat (data_block_number (super_block g)) =
           2 + unat (bmap_size g) + unat (imap_size g) + unat (inode_table_size g)"
    by (simp add: r u)
  show "length (buffer (bmap g)) = unat (bmap_size g) * 4096" by (simp add: r b)
  show "length (buffer (imap g)) = unat (imap_size g) * 4096" by (simp add: r b)
qed

lemma sample_run:
  "open_result (sample_env 409600) ''image'' \<noteq> - 1"
  "init_disk sample_constants (sample_env 409600) globals_init
     (open_result (sample_env 409600) ''image'') ''image'' = Some (0, sample_formatted)"
  "\<forall>i. write_result (sample_env 409600) i = WFull"
  "lseek_ok (sample_env 409600)"
  "5 \<le> HUST_FILENAME_MAX_LEN sample_constants"
proof -
  have o: "open_result (sample_env 409600) ''image'' = 3" by (simp add: sample_env_def)
  show "init_disk sample_constants (sample_env 409600) globals_init
     (open_result (sample_env 409600) ''image'') ''image'' = Some (0, sample_formatted)"
    unfolding o by (rule init_disk_sample)
qed (simp_all add: sample_env_def sample_constants_def)

lemma sample_sizes:
  "sizeof_dir_record sample_constants = 264"
  "unat (bmap_size sample_formatted) = 1" "unat (imap_size sample_formatted) = 1"
  "unat (bmap_block (super_block sample_formatted)) = 2"
  "unat (imap_block (super_block sample_formatted)) = 3"
  "unat (inode_table_block (super_block sample_formatted)) = 4"
  "unat (data_block_number (super_block sample_formatted)) = 10"
  "unat (inode_table_size sample_formatted) = 6"
  by (simp_all add: sizeof_dir_record_def sample_constants_def sample_formatted_def)

text \<open>
  C7. In a run in which \<open>init_disk\<close> returns 0, every \<open>write\<close> is full and the seek
  succeeds, \<open>main\<close> issues exactly nine writes, in this order: 4096 zero bytes at offset
  0 (block 0); the superblock structure, 4096 bytes, at block 1; the block bitmap,
  \<open>bmap_size\<close> blocks, at block \<open>bmap_block\<close>, immediately after the superblock; the inode
  bitmap, \<open>imap_size\<close> blocks, at block \<open>imap_block\<close>, immediately after the block bitmap;
  the two 264-byte inode records one after the other from block \<open>inode_table_block\<close>,
  immediately after the inode bitmap; and the three directory records of
  \<open>sizeof_dir_record\<close> bytes each from byte offset \<open>data_block_number * 4096\<close>, where the
  seek put the file offset. Every write goes to the opened descriptor and returns its
  full count.
\<close>

theorem main_write_order:
  assumes fd: "open_result e path \<noteq> - 1"
    and init: "init_disk k e globals_init (open_result e path) path = Some (0, g)"
    and wr: "\<forall>i. write_result e i = WFull" and ls: "lseek_ok e"
    and cap: "5 \<le> HUST_FILENAME_MAX_LEN k"
  defines "sb \<equiv> super_block g"
  defines "n \<equiv> sizeof_dir_record k"
  shows "\<exists>s. main k e [prog, path] = Some (1, s) \<and>
           map w_at (trace s) =
             [0, 1 * 4096, unat (bmap_block sb) * 4096, unat (imap_block sb) * 4096,
              unat (inode_table_block sb) * 4096, unat (inode_table_block sb) * 4096 + 264,
              unat (data_block_number sb) * 4096, unat (data_block_number sb) * 4096 + n,
              unat (data_block_number sb) * 4096 + 2 * n] \<and>
           map w_count (trace s) =
             [4096, 4096, unat (bmap_size g) * 4096, unat (imap_size g) * 4096,
              264, 264, n, n, n] \<and>
           map w_buf (take 4 (trace s)) =
             [Raw (replicate 4096 0), SB (super_block g), Raw (buffer (bmap g)),
              Raw (buffer (imap g))] \<and>
           length (buffer (bmap g)) = unat (bmap_size g) * 4096 \<and>
           length (buffer (imap g)) = unat (imap_size g) * 4096 \<and>
           map (is_INODE \<circ> w_buf) (drop 4 (trace s)) = [True, True, False, False, False] \<and>
           map (is_DIRREC \<circ> w_buf) (drop 4 (trace s)) = [False, False, True, True, True] \<and>
           w_at (trace s ! 2) = w_end (trace s ! 1) \<and>
           w_at (trace s ! 3) = w_end (trace s ! 2) \<and>
           w_at (trace s ! 4) = w_end (trace s ! 3) \<and>
           w_at (trace s ! 5) = w_end (trace s ! 4) \<and>
           map w_ret (trace s) = map (of_nat \<circ> w_count) (trace s) \<and>
           list_all (\<lambda>c. w_fd c = open_result e path) (trace s)"
proof -
  note bl = init_disk_blocks [OF init]
  show ?thesis
    unfolding main_success [OF fd init wr ls cap]
    by (simp add: full_trace_def itable_trace_def Let_def sb_def n_def bl w_end_def)
qed


text \<open>The theorem on the 409600-byte sample device, with the data block at 40960.\<close>

theorem main_write_order_witness:
  "open_result (sample_env 409600) ''image'' \<noteq> - 1 \<and>
   init_disk sample_constants (sample_env 409600) globals_init
     (open_result (sample_env 409600) ''image'') ''image'' = Some (0, sample_formatted) \<and>
   (\<forall>i. write_result (sample_env 409600) i = WFull) \<and>
   lseek_ok (sample_env 409600) \<and>
   5 \<le> HUST_FILENAME_MAX_LEN sample_constants \<and>
   (\<exists>s. main sample_constants (sample_env 409600) [''mkfs'', ''image''] = Some (1, s) \<and>
        map w_at (trace s) = [0, 4096, 8192, 12288, 16384, 16648, 40960, 41224, 41488] \<and>
        map w_count (trace s) = [4096, 4096, 4096, 4096, 264, 264, 264, 264, 264])"
proof -
  from main_write_order [OF sample_run, of "''mkfs''"]
  obtain s where "main sample_constants (sample_env 409600) [''mkfs'', ''image''] = Some (1, s)"
    and "map w_at (trace s) = [0, 4096, 8192, 12288, 16384, 16648, 40960, 41224, 41488]"
    and "map w_count (trace s) = [4096, 4096, 4096, 4096, 264, 264, 264, 264, 264]"
    unfolding sample_sizes by auto
  then have "\<exists>s. main sample_constants (sample_env 409600) [''mkfs'', ''image''] = Some (1, s) \<and>
        map w_at (trace s) = [0, 4096, 8192, 12288, 16384, 16648, 40960, 41224, 41488] \<and>
        map w_count (trace s) = [4096, 4096, 4096, 4096, 264, 264, 264, 264, 264]"
    by (intro exI [of _ s] conjI)
  with sample_run show ?thesis by (intro conjI)
qed

section \<open>The two inode records (claim C8)\<close>

text \<open>
  C8. In a run in which \<open>init_disk\<close> returns 0, every \<open>write\<close> is full and the seek
  succeeds, exactly two inode records are written, one after the other from the start of
  the inode table. The first is the root directory inode: mode \<open>S_IFDIR\<close>, inode number
  \<open>HUST_ROOT_INODE_NUM\<close>, one block, \<open>block[0] = data_block_number\<close>, three children, two
  links, the uid and gid of the process, and the three timestamps equal to the value of
  the first \<open>time\<close> call. The second is the inode of the initial file: mode \<open>S_IFREG\<close>,
  inode number 1, no blocks, \<open>block[0] = 0\<close>, size 0, one link, the same uid and gid, and
  the three timestamps equal to the value of the second \<open>time\<close> call.
\<close>

theorem main_inode_records:
  assumes fd: "open_result e path \<noteq> - 1"
    and init: "init_disk k e globals_init (open_result e path) path = Some (0, g)"
    and wr: "\<forall>i. write_result e i = WFull" and ls: "lseek_ok e"
    and cap: "5 \<le> HUST_FILENAME_MAX_LEN k"
  shows "\<exists>s root file. main k e [prog, path] = Some (1, s) \<and>
           inodes_written s = [root, file] \<and>
           map w_at (filter (is_INODE \<circ> w_buf) (trace s)) =
             [unat (inode_table_block (super_block g)) * 4096,
              unat (inode_table_block (super_block g)) * 4096 + unat HUST_INODE_SIZE] \<and>
           mode root = S_IFDIR \<and> inode_no root = HUST_ROOT_INODE_NUM k \<and>
           blocks root = 1 \<and> block root 0 = data_block_number (super_block g) \<and>
           dir_children_count root = 3 \<and> i_nlink root = 2 \<and>
           i_uid root = uid e \<and> i_gid root = gid e \<and>
           i_atime root = time_result e 0 \<and> i_mtime root = time_result e 0 \<and>
           i_ctime root = time_result e 0 \<and>
           mode file = S_IFREG \<and> inode_no file = 1 \<and> blocks file = 0 \<and>
           block file 0 = 0 \<and> file_size file = 0 \<and> i_nlink file = 1 \<and>
           i_uid file = uid e \<and> i_gid file = gid e \<and>
           i_atime file = time_result e 1 \<and> i_mtime file = time_result e 1 \<and>
           i_ctime file = time_result e 1"
proof -
  note bl = init_disk_blocks [OF init]
  let ?s = "\<lparr>pos = unat (data_block_number (super_block g)) * 4096 + 3 * sizeof_dir_record k,
              trace = full_trace k e g (open_result e path)\<rparr>"
  show ?thesis
    unfolding main_success [OF fd init wr ls cap]
    apply (rule exI [of _ ?s])
    apply (rule exI [of _ "root_dir_inode k e g"])
    apply (rule exI [of _ "onefile_inode e"])
    by (simp add: full_trace_def itable_trace_def Let_def bl inodes_written_def
          root_dir_inode_def onefile_inode_def HUST_INODE_SIZE_def)
qed

text \<open>The theorem on the 409600-byte sample device: the root inode points to block 10.\<close>

theorem main_inode_records_witness:
  "open_result (sample_env 409600) ''image'' \<noteq> - 1 \<and>
   init_disk sample_constants (sample_env 409600) globals_init
     (open_result (sample_env 409600) ''image'') ''image'' = Some (0, sample_formatted) \<and>
   (\<forall>i. write_result (sample_env 409600) i = WFull) \<and>
   lseek_ok (sample_env 409600) \<and>
   5 \<le> HUST_FILENAME_MAX_LEN sample_constants \<and>
   (\<exists>s root file.
        main sample_constants (sample_env 409600) [''mkfs'', ''image''] = Some (1, s) \<and>
        inodes_written s = [root, file] \<and>
        mode root = 0x4000 \<and> inode_no root = 0 \<and> blocks root = 1 \<and> block root 0 = 10 \<and>
        dir_children_count root = 3 \<and> i_nlink root = 2 \<and> i_uid root = 1000 \<and>
        i_gid root = 100 \<and> i_mtime root = 1700000000 \<and>
        mode file = 0x8000 \<and> inode_no file = 1 \<and> blocks file = 0 \<and> file_size file = 0 \<and>
        i_nlink file = 1 \<and> i_uid file = 1000 \<and> i_gid file = 100 \<and>
        i_mtime file = 1700000001)"
proof -
  have v: "uid (sample_env 409600) = 1000" "gid (sample_env 409600) = 100"
    "time_result (sample_env 409600) 0 = 1700000000"
    "time_result (sample_env 409600) 1 = 1700000001"
    "HUST_ROOT_INODE_NUM sample_constants = 0"
    "data_block_number (super_block sample_formatted) = 10"
    by (simp_all add: sample_env_def sample_constants_def sample_formatted_def)
  from main_inode_records [OF sample_run, of "''mkfs''"]
  obtain s root reg where
    "main sample_constants (sample_env 409600) [''mkfs'', ''image''] = Some (1, s)"
    "inodes_written s = [root, reg]"
    "mode root = 0x4000" "inode_no root = 0" "blocks root = 1" "block root 0 = 10"
    "dir_children_count root = 3" "i_nlink root = 2" "i_uid root = 1000"
    "i_gid root = 100" "i_mtime root = 1700000000"
    "mode reg = 0x8000" "inode_no reg = 1" "blocks reg = 0" "file_size reg = 0"
    "i_nlink reg = 1" "i_uid reg = 1000" "i_gid reg = 100"
    "i_mtime reg = 1700000001"
    unfolding v S_IFDIR_def S_IFREG_def by blast
  then have "\<exists>s root file.
        main sample_constants (sample_env 409600) [''mkfs'', ''image''] = Some (1, s) \<and>
        inodes_written s = [root, file] \<and>
        mode root = 0x4000 \<and> inode_no root = 0 \<and> blocks root = 1 \<and> block root 0 = 10 \<and>
        dir_children_count root = 3 \<and> i_nlink root = 2 \<and> i_uid root = 1000 \<and>
        i_gid root = 100 \<and> i_mtime root = 1700000000 \<and>
        mode file = 0x8000 \<and> inode_no file = 1 \<and> blocks file = 0 \<and> file_size file = 0 \<and>
        i_nlink file = 1 \<and> i_uid file = 1000 \<and> i_gid file = 100 \<and>
        i_mtime file = 1700000001"
    apply (intro exI [of _ s])
    apply (rule exI [of _ root])
    apply (rule exI [of _ reg])
    by (intro conjI)
  with sample_run show ?thesis by (intro conjI)
qed

section \<open>The exit status of a successful run (claim C10)\<close>

text \<open>
  C10. When the program is called with one device argument, the device opens and each
  of the six stages succeeds (\<open>init_disk\<close>, \<open>write_dummy\<close>, \<open>write_sb\<close>, \<open>write_bmap\<close>,
  \<open>write_imap\<close> and \<open>write_itable\<close> each return 0), \<open>main\<close> returns 1: \<open>ret\<close> is set to 1
  before the first stage and no stage's result is assigned to it.
\<close>

theorem main_exit_status:
  assumes fd: "open_result e path = fd" "fd \<noteq> - 1"
    and init: "init_disk k e globals_init fd path = Some (0, g)"
    and s1: "write_dummy e sys_init fd = (0, s1)"
    and s2: "write_sb e g s1 fd = (0, s2)"
    and s3: "write_bmap e g s2 fd = (0, s3)"
    and s4: "write_imap e g s3 fd = (0, s4)"
    and s5: "write_itable k e g s4 fd = Some (0, s5)"
  shows "main k e [prog, path] = Some (1, s5)"
  using fd by (simp add: main_def init s1 s2 s3 s4 s5)


text \<open>The six stages and the exit status on the 409600-byte sample device.\<close>

theorem main_exit_status_witness:
  "\<exists>s1 s2 s3 s4 s5.
     open_result (sample_env 409600) ''image'' = 3 \<and> (3 :: int) \<noteq> - 1 \<and>
     init_disk sample_constants (sample_env 409600) globals_init 3 ''image'' =
       Some (0, sample_formatted) \<and>
     write_dummy (sample_env 409600) sys_init 3 = (0, s1) \<and>
     write_sb (sample_env 409600) sample_formatted s1 3 = (0, s2) \<and>
     write_bmap (sample_env 409600) sample_formatted s2 3 = (0, s3) \<and>
     write_imap (sample_env 409600) sample_formatted s3 3 = (0, s4) \<and>
     write_itable sample_constants (sample_env 409600) sample_formatted s4 3 = Some (0, s5) \<and>
     main sample_constants (sample_env 409600) [''mkfs'', ''image''] = Some (1, s5)"
proof -
  let ?e = "sample_env 409600"
  have o: "open_result ?e ''image'' = 3" by (simp add: sample_env_def)
  have wr: "\<forall>i. write_result ?e i = WFull" by (simp add: sample_env_def)
  have ls: "lseek_ok ?e" by (simp add: sample_env_def)
  have cap: "5 \<le> HUST_FILENAME_MAX_LEN sample_constants" by (simp add: sample_constants_def)
  have b: "unat (bmap_size sample_formatted * HUST_BLOCKSIZE) = unat (bmap_size sample_formatted) * 4096"
    "unat (imap_size sample_formatted * HUST_BLOCKSIZE) = unat (imap_size sample_formatted) * 4096"
    "unat (data_block_number (super_block sample_formatted) * HUST_BLOCKSIZE) =
       unat (data_block_number (super_block sample_formatted)) * 4096"
    "data_block_number (super_block sample_formatted) * HUST_BLOCKSIZE \<noteq> - 1"
    by (simp_all add: sample_formatted_def HUST_BLOCKSIZE_def)
  obtain s1 where 1: "write_dummy ?e sys_init 3 = (0, s1)"
    by (simp add: write_dummy_full [OF wr])
  obtain s2 where 2: "write_sb ?e sample_formatted s1 3 = (0, s2)"
    by (simp add: write_sb_full [OF wr])
  obtain s3 where 3: "write_bmap ?e sample_formatted s2 3 = (0, s3)"
    by (simp add: write_bmap_full [OF wr b(1)])
  obtain s4 where 4: "write_imap ?e sample_formatted s3 3 = (0, s4)"
    by (simp add: write_imap_full [OF wr b(2)])
  obtain s5 where 5: "write_itable sample_constants ?e sample_formatted s4 3 = Some (0, s5)"
    by (simp add: write_itable_full [OF wr ls cap b(3) b(4)])
  have i: "init_disk sample_constants ?e globals_init 3 ''image'' = Some (0, sample_formatted)"
    by (rule init_disk_sample)
  have n: "(3 :: int) \<noteq> - 1" by simp
  from main_exit_status [OF o n i 1 2 3 4 5, of "''mkfs''"]
  have m: "main sample_constants ?e [''mkfs'', ''image''] = Some (1, s5)" .
  show ?thesis
    apply (rule exI [of _ s1])
    apply (rule exI [of _ s2])
    apply (rule exI [of _ s3])
    apply (rule exI [of _ s4])
    apply (rule exI [of _ s5])
    using o n i 1 2 3 4 5 m by (intro conjI)
qed

section \<open>The directory records (claim C9)\<close>






end
